theory Spec2Isabelle
  imports Complex_Main "HOL-Library.Word"
begin

section \<open>WaveSync chunk player: data model\<close>

text \<open>
  Embedding of \<^verbatim>\<open>libwavesync/chunk_player.py\<close>. Python floats are modelled as
  \<^typ>\<open>real\<close>, Python ints as \<^typ>\<open>int\<close>, \<^verbatim>\<open>bytes\<close> as lists of 8-bit words.
  The object \<^verbatim>\<open>self\<close>, together with the local variables of the coroutine
  \<^verbatim>\<open>chunk_player\<close> (\<^verbatim>\<open>cnt\<close>, \<^verbatim>\<open>recent\<close>, \<^verbatim>\<open>recent_start\<close>, \<^verbatim>\<open>max_delay\<close>), is one
  record that every operation takes and returns. Calls into asyncio, the audio
  device and \<^verbatim>\<open>print\<close> are recorded, in order, in the field \<open>effects\<close>. Calls
  into the audio library are taken to succeed.
\<close>

type_synonym byte = "8 word"

record cfg =
  sample :: int
  channels :: int
  rate :: int
  chunk_size :: int
  latency_msec :: int

text \<open>A queue entry \<^verbatim>\<open>(cmd, item)\<close>; the audio item is the pair \<^verbatim>\<open>(mark, chunk)\<close>.\<close>

datatype cmd = CMD_CFG cfg | CMD_DROPS int | CMD_AUDIO real "byte list"

datatype error = ZeroDivisionError | AssertionError | TypeError | AttributeError

datatype sample_format = paInt16 | paInt24

record stream_handle =
  s_channels :: int
  s_rate :: int
  s_format :: sample_format
  s_frames_per_buffer :: int
  s_output_device_index :: "int option"

record receiver_stats =
  stat_network_latency :: real
  stat_network_drops :: int

text \<open>The values formatted into the \<^verbatim>\<open>STAT:\<close> line, in the order of the format string.\<close>

record stat_line =
  q_len :: nat
  bs :: real
  chunks_per_s :: real
  net_lat_ms :: real
  avg_delay :: real
  drops_time :: int
  drops_net :: int
  out_delay :: int

datatype message =
    QueueEmptyWaiting
  | StreamFlowing nat
  | NewConfiguration
  | AssumingMaxDelay real
  | RecoveringLoss int
  | DropChunk nat real real real
  | HugeRecovery real real
  | OutputStuck
  | Stat stat_line
  | WarnLatencyHuge
  | WarnLatencyNegative

datatype effect =
    Print message
  | Sleep real
  | WaitChunkAvailable
  | OpenStream stream_handle
  | CloseStream
  | GetWriteAvailable int
  | Write "byte list"

text \<open>
  The queue object shared with the receiver. Only \<^verbatim>\<open>chunk_list\<close> is used by the
  player; \<open>recovery_requests\<close> counts the calls of \<^verbatim>\<open>do_recovery\<close>.
\<close>

record queue =
  chunk_list :: "cmd list"
  recovery_requests :: nat

record player =
  chunk_queue :: queue
  receiver :: "receiver_stats option"
  tolerance :: real
  sink_latency :: real
  latency :: real
  audio_cfg :: "cfg option"
  buffer_size :: int
  device_index :: "int option"
  stream :: "stream_handle option"
  silence_cache :: "byte list option"
  silence_to_insert :: int
  stat_time_drops :: int
  stat_output_delays :: int
  stat_total_delay :: real
  frame_size :: "int option"
  chunk_frames :: "real option"
  cnt :: int
  recent :: int
  recent_start :: real
  max_delay :: real
  effects :: "effect list"

text \<open>
  What one iteration of the loop reads from outside: the UTC clock, the random
  draw, the answers of \<^verbatim>\<open>get_write_available\<close> (the k-th poll of the iteration),
  the two readings of \<^verbatim>\<open>time()\<close>, and the events the receiver appends to the queue
  while the iteration is suspended.
\<close>

record env =
  now :: real
  rand :: real
  avail :: "nat \<Rightarrow> int"
  clock :: real
  clock_after :: real
  arrivals :: "cmd list"

section \<open>Operations\<close>

definition emit :: "effect \<Rightarrow> player \<Rightarrow> player" where
  "emit x st = st\<lparr>effects := effects st @ [x]\<rparr>"

definition one_msec :: real where
  "one_msec = 1 / 1000"

definition mid_tolerance :: "player \<Rightarrow> real" where
  "mid_tolerance st = tolerance st / 2"

text \<open>
  Modelled from the spec: \<^verbatim>\<open>ChunkQueue.do_recovery\<close> is not part of the source at
  hand. The spec calls it the queue's own recovery hook, opaque to the player,
  signalling the receiver; it is modelled as counting the request and leaving the
  pending events alone.
\<close>

definition do_recovery :: "queue \<Rightarrow> queue" where
  "do_recovery q = q\<lparr>recovery_requests := Suc (recovery_requests q)\<rparr>"

text \<open>The scan of \<^verbatim>\<open>clear_state\<close>: the first \<^verbatim>\<open>CMD_CFG\<close> item from the left, then \<^verbatim>\<open>break\<close>.\<close>

fun first_cfg :: "cmd list \<Rightarrow> cfg option" where
  "first_cfg [] = None"
| "first_cfg (CMD_CFG item # xs) = Some item"
| "first_cfg (CMD_DROPS n # xs) = first_cfg xs"
| "first_cfg (CMD_AUDIO mark chunk # xs) = first_cfg xs"

definition clear_state :: "player \<Rightarrow> player" where
  "clear_state st =
     (let st1 = st\<lparr>silence_to_insert := 0\<rparr>;
          q = chunk_queue st1;
          kept = (case first_cfg (chunk_list q) of
                    None \<Rightarrow> []
                  | Some item \<Rightarrow> [CMD_CFG item])
      in st1\<lparr>chunk_queue := do_recovery (q\<lparr>chunk_list := kept\<rparr>)\<rparr>)"

definition get_silent_chunk :: "player \<Rightarrow> error + (byte list \<times> player)" where
  "get_silent_chunk st =
     (case silence_cache st of
        Some c \<Rightarrow> Inr (c, st)
      | None \<Rightarrow>
          (case audio_cfg st of
             None \<Rightarrow> Inl TypeError
           | Some c \<Rightarrow>
               (let silent_chunk = replicate (nat (chunk_size c)) (0 :: byte)
                in Inr (silent_chunk, st\<lparr>silence_cache := Some silent_chunk\<rparr>))))"

definition open_stream :: "player \<Rightarrow> error + player" where
  "open_stream st =
     (if stream st \<noteq> None then Inl AssertionError
      else
        (let st1 = clear_state st in
         case audio_cfg st1 of
           None \<Rightarrow> Inl TypeError
         | Some c \<Rightarrow>
             (let fs = (if sample c = 24 then 3 * channels c else 2 * channels c);
                  fmt = (if sample c = 24 then paInt24 else paInt16);
                  h = \<lparr>s_channels = channels c, s_rate = rate c, s_format = fmt,
                       s_frames_per_buffer = buffer_size st1,
                       s_output_device_index = device_index st1\<rparr>;
                  st2 = emit (OpenStream h) st1
              in if fs = 0 then Inl ZeroDivisionError
                 else Inr (st2\<lparr>frame_size := Some fs,
                               chunk_frames := Some (real_of_int (chunk_size c) / real_of_int fs),
                               stream := Some h\<rparr>))))"

definition close_stream :: "player \<Rightarrow> error + player" where
  "close_stream st =
     (case stream st of
        None \<Rightarrow> Inl AttributeError
      | Some h \<Rightarrow> Inr ((emit CloseStream st)\<lparr>stream := None\<rparr>))"

text \<open>
  The inner loop of the output writer, from the value \<open>times_n\<close> of \<^verbatim>\<open>times\<close> on. It returns the last
  \<^verbatim>\<open>buffer_space\<close> read, which the status line uses.
\<close>

function write_loop :: "(nat \<Rightarrow> int) \<Rightarrow> real \<Rightarrow> real \<Rightarrow> byte list \<Rightarrow> nat \<Rightarrow> player \<Rightarrow> int \<times> player" where
  "write_loop av cf delay chunk times_n st =
     (let buffer_space = av times_n;
          st1 = emit (GetWriteAvailable buffer_space) st
      in if real_of_int buffer_space < cf then
           (let st2 = emit (Sleep (max one_msec delay))
                        (st1\<lparr>stat_output_delays := stat_output_delays st1 + 1\<rparr>)
            in if Suc times_n > 100
               then (buffer_space, emit (Sleep 1) (emit (Print OutputStuck) st2))
               else write_loop av cf delay chunk (Suc times_n) st2)
         else (buffer_space, emit (Write chunk) st1))"
  by pat_completeness auto
termination
  by (relation "measure (\<lambda>(av, cf, delay, chunk, times_n, st). 101 - times_n)") auto

declare write_loop.simps [simp del]

text \<open>The status block at the end of an iteration (\<^verbatim>\<open>if recent > 200:\<close>).\<close>

definition main_status :: "env \<Rightarrow> int \<Rightarrow> byte list \<Rightarrow> player \<Rightarrow> error + player" where
  "main_status e buffer_space chunk st =
     (if recent st > 200 then
        (case frame_size st of
           None \<Rightarrow> Inl TypeError
         | Some fs \<Rightarrow>
             if fs = 0 then Inl ZeroDivisionError
             else
               (let frames_in_chunk = real (length chunk) / real_of_int fs;
                    took = clock e - recent_start st
                in if took = 0 then Inl ZeroDivisionError
                   else
                     (let chunks_per_s = real_of_int (recent st) / took;
                          network_latency = (case receiver st of
                                               Some r \<Rightarrow> stat_network_latency r
                                             | None \<Rightarrow> 0);
                          network_drops = (case receiver st of
                                             Some r \<Rightarrow> stat_network_drops r
                                           | None \<Rightarrow> 0)
                      in if frames_in_chunk = 0 \<or> cnt st = 0 then Inl ZeroDivisionError
                         else
                           (let s = \<lparr>q_len = length (chunk_list (chunk_queue st)),
                                     bs = real_of_int buffer_space / frames_in_chunk,
                                     chunks_per_s = chunks_per_s,
                                     net_lat_ms = 1000 * network_latency,
                                     avg_delay = 1000 * stat_total_delay st / real_of_int (cnt st),
                                     drops_time = stat_time_drops st,
                                     drops_net = network_drops,
                                     out_delay = stat_output_delays st\<rparr>;
                                st1 = (emit (Print (Stat s)) st)
                                        \<lparr>recent := 0, recent_start := clock_after e\<rparr>
                            in Inr (case receiver st1 of
                                      None \<Rightarrow> st1
                                    | Some r \<Rightarrow>
                                        if stat_network_latency r > 4
                                        then emit (Print WarnLatencyHuge) st1
                                        else if stat_network_latency r < 0
                                        then emit (Print WarnLatencyNegative) st1
                                        else st1)))))
      else Inr st)"

definition receive :: "env \<Rightarrow> player \<Rightarrow> player" where
  "receive e st =
     st\<lparr>chunk_queue := (chunk_queue st)\<lparr>chunk_list := chunk_list (chunk_queue st) @ arrivals e\<rparr>\<rparr>"

text \<open>The branch taken when the queue is empty.\<close>

definition on_empty :: "env \<Rightarrow> player \<Rightarrow> player" where
  "on_empty e st =
     (let st1 = (if audio_cfg st \<noteq> None then emit (Print QueueEmptyWaiting) st else st);
          st2 = receive e (emit WaitChunkAvailable st1);
          st3 = st2\<lparr>recent_start := clock e, recent := 0\<rparr>
      in case audio_cfg st3 of
           None \<Rightarrow> st3
         | Some c \<Rightarrow>
             emit (Print (StreamFlowing (length (chunk_list (chunk_queue st3)))))
               (emit (Sleep (real_of_int (latency_msec c) / 1000 / 4)) st3))"

text \<open>The branch for \<^verbatim>\<open>CMD_CFG\<close>; the entry has already been popped.\<close>

definition on_cfg :: "cfg \<Rightarrow> player \<Rightarrow> error + player" where
  "on_cfg item st =
     (let st1 = clear_state (emit (Print NewConfiguration) st);
          st2 = st1\<lparr>audio_cfg := Some item\<rparr>
      in case (if stream st2 \<noteq> None then close_stream st2 else Inr st2) of
           Inl err \<Rightarrow> Inl err
         | Inr st3 \<Rightarrow>
             (case open_stream st3 of
                Inl err \<Rightarrow> Inl err
              | Inr st4 \<Rightarrow>
                  (let md = 0.2 + sink_latency st4 + real_of_int (latency_msec item) / 1000
                   in Inr (emit (Print (AssumingMaxDelay (md * 1000))) (st4\<lparr>max_delay := md\<rparr>)))))"

text \<open>The branch for \<^verbatim>\<open>CMD_DROPS\<close>.\<close>

definition on_drops :: "int \<Rightarrow> player \<Rightarrow> player" where
  "on_drops item st =
     (if item > 200 then clear_state (emit (Print (RecoveringLoss item)) st)
      else st\<lparr>silence_to_insert := silence_to_insert st + item\<rparr>)"

text \<open>
  The output writer and the status block, reached by a chunk that was neither
  dropped nor taken for a recovery.
\<close>

definition write_and_report :: "env \<Rightarrow> real \<Rightarrow> byte list \<Rightarrow> player \<Rightarrow> error + player" where
  "write_and_report e delay chunk st =
     (case chunk_frames st of
        None \<Rightarrow> Inl TypeError
      | Some cf \<Rightarrow>
          (case write_loop (avail e) cf delay chunk 0 st of
             (buffer_space, st1) \<Rightarrow> main_status e buffer_space chunk (receive e st1)))"

text \<open>The delay of a chunk: \<^verbatim>\<open>desired_time - now\<close>.\<close>

definition chunk_delay :: "env \<Rightarrow> real \<Rightarrow> player \<Rightarrow> real" where
  "chunk_delay e mark st = (let desired_time = mark - sink_latency st in desired_time - now e)"

text \<open>The bookkeeping done for every chunk that has an open device, before the checks.\<close>

definition count_chunk :: "real \<Rightarrow> player \<Rightarrow> player" where
  "count_chunk delay st =
     st\<lparr>stat_total_delay := stat_total_delay st + delay,
        recent := recent st + 1, cnt := cnt st + 1\<rparr>"

text \<open>The body of \<^verbatim>\<open>if random.random() < prob:\<close>, up to its \<^verbatim>\<open>continue\<close>.\<close>

definition drop_chunk :: "real \<Rightarrow> real \<Rightarrow> player \<Rightarrow> player" where
  "drop_chunk delay prob st =
     (emit (Print (DropChunk (length (chunk_list (chunk_queue st)))
                     (delay * 1000) (- tolerance st * 1000) prob)) st)
       \<lparr>stat_time_drops := stat_time_drops st + 1\<rparr>"

text \<open>The branch for \<^verbatim>\<open>CMD_AUDIO\<close>.\<close>

definition on_audio :: "env \<Rightarrow> real \<Rightarrow> byte list \<Rightarrow> player \<Rightarrow> error + player" where
  "on_audio e mark chunk st =
     (if stream st = None then Inr st
      else
        (let delay = chunk_delay e mark st;
             st1 = count_chunk delay st
         in if delay < - mid_tolerance st1 then
              (let over = - delay - mid_tolerance st1
               in if mid_tolerance st1 = 0 then Inl ZeroDivisionError
                  else
                    (let prob = over / mid_tolerance st1
                     in if rand e < prob then Inr (drop_chunk delay prob st1)
                        else write_and_report e delay chunk st1))
            else if delay > max_delay st1 then
              Inr (clear_state (emit (Print (HugeRecovery delay (max_delay st1))) st1))
            else if delay > one_msec then
              write_and_report e delay chunk
                (emit (Sleep (max one_msec (delay - one_msec))) st1)
            else write_and_report e delay chunk st1))"

definition pop_front :: "cmd list \<Rightarrow> player \<Rightarrow> player" where
  "pop_front xs st = st\<lparr>chunk_queue := (chunk_queue st)\<lparr>chunk_list := xs\<rparr>\<rparr>"

text \<open>One iteration of \<^verbatim>\<open>while True\<close> in \<^verbatim>\<open>chunk_player\<close>.\<close>

definition step :: "env \<Rightarrow> player \<Rightarrow> error + player" where
  "step e st =
     (case chunk_list (chunk_queue st) of
        [] \<Rightarrow> Inr (on_empty e st)
      | CMD_CFG item # xs \<Rightarrow> on_cfg item (pop_front xs st)
      | CMD_DROPS item # xs \<Rightarrow> Inr (on_drops item (pop_front xs st))
      | CMD_AUDIO mark chunk # xs \<Rightarrow> on_audio e mark chunk (pop_front xs st))"

text \<open>Finitely many iterations, one environment reading each; an exception ends the loop.\<close>

fun run :: "env list \<Rightarrow> player \<Rightarrow> error + player" where
  "run [] st = Inr st"
| "run (e # es) st = (case step e st of Inl err \<Rightarrow> Inl err | Inr st1 \<Rightarrow> run es st1)"

text \<open>The state in which \<^verbatim>\<open>chunk_player\<close> starts, after \<^verbatim>\<open>__init__\<close>.\<close>

definition init :: "receiver_stats option \<Rightarrow> real \<Rightarrow> real \<Rightarrow> real \<Rightarrow> int \<Rightarrow> int option \<Rightarrow> real \<Rightarrow> player" where
  "init rcv tol sl lat bsz dev t0 =
     \<lparr>chunk_queue = \<lparr>chunk_list = [], recovery_requests = 0\<rparr>,
      receiver = rcv, tolerance = tol, sink_latency = sl, latency = lat,
      audio_cfg = None, buffer_size = bsz, device_index = dev, stream = None,
      silence_cache = None, silence_to_insert = 0,
      stat_time_drops = 0, stat_output_delays = 0, stat_total_delay = 0,
      frame_size = None, chunk_frames = None,
      cnt = 0, recent = 0, recent_start = t0, max_delay = 5, effects = []\<rparr>"

section \<open>Notions used in the statements\<close>

fun is_cfg :: "cmd \<Rightarrow> bool" where
  "is_cfg (CMD_CFG item) = True"
| "is_cfg (CMD_DROPS n) = False"
| "is_cfg (CMD_AUDIO mark chunk) = False"

text \<open>An iteration on an audio chunk dropped it: it ended with one more time drop counted.\<close>

definition dropped :: "env \<Rightarrow> real \<Rightarrow> byte list \<Rightarrow> player \<Rightarrow> bool" where
  "dropped e mark chunk st =
     (case on_audio e mark chunk st of
        Inl err \<Rightarrow> False
      | Inr st1 \<Rightarrow> stat_time_drops st1 = stat_time_drops st + 1)"

text \<open>The effects an operation added to the log of the state it started from.\<close>

definition added :: "player \<Rightarrow> player \<Rightarrow> effect list" where
  "added st st1 = drop (length (effects st)) (effects st1)"

text \<open>The polls and pauses of a writer that finds the device full 101 times.\<close>

definition stuck_polls :: "(nat \<Rightarrow> int) \<Rightarrow> real \<Rightarrow> nat \<Rightarrow> effect list" where
  "stuck_polls av delay from_n =
     concat (map (\<lambda>k. [GetWriteAvailable (av k), Sleep (max one_msec delay)]) [from_n..<101])"

text \<open>A status line in the effect log.\<close>

fun is_stat :: "effect \<Rightarrow> bool" where
  "is_stat (Print (Stat s)) = True"
| "is_stat x = False"

text \<open>
  An audio chunk gets as far as the output writer: the device is open, and the chunk
  is either late beyond half the tolerance and spared by the draw, or not late in that
  way and not above \<open>max_delay\<close>. These are the conditions of the branches of the
  loop body that do not end in \<^verbatim>\<open>continue\<close>.
\<close>

definition reaches_writer :: "env \<Rightarrow> real \<Rightarrow> player \<Rightarrow> bool" where
  "reaches_writer e mark st =
     (stream st \<noteq> None \<and>
      (let d = chunk_delay e mark st; m = mid_tolerance st
       in if d < - m then m \<noteq> 0 \<and> \<not> rand e < (- d - m) / m
          else \<not> d > max_delay st))"

subsection \<open>Concrete configurations and states\<close>

definition scenario_a :: cfg where
  "scenario_a = \<lparr>sample = 16, channels = 2, rate = 44100, chunk_size = 4096, latency_msec = 100\<rparr>"

definition scenario_b :: cfg where
  "scenario_b = \<lparr>sample = 24, channels = 2, rate = 48000, chunk_size = 6144, latency_msec = 250\<rparr>"

definition idle_player :: player where
  "idle_player = init None 0.1 0.1 0 1024 None 0"

definition streaming_player :: player where
  "streaming_player =
     idle_player\<lparr>audio_cfg := Some scenario_a,
                  stream := Some \<lparr>s_channels = 2, s_rate = 44100, s_format = paInt16,
                                  s_frames_per_buffer = 1024, s_output_device_index = None\<rparr>,
                  frame_size := Some 4, chunk_frames := Some 1024, max_delay := 0.4\<rparr>"

definition stuck_env :: env where
  "stuck_env = \<lparr>now = 0, rand = 0.5, avail = (\<lambda>k. 0), clock = 1, clock_after = 1, arrivals = []\<rparr>"

definition quiet_env :: env where
  "quiet_env = \<lparr>now = 0, rand = 0.5, avail = (\<lambda>k. 2048), clock = 1, clock_after = 1, arrivals = []\<rparr>"

text \<open>A short run: a chunk that is due, a chunk that is late, a large loss, an empty queue.\<close>

definition sample_start :: player where
  "sample_start =
     streaming_player\<lparr>recent := 7, chunk_queue :=
        \<lparr>chunk_list = [CMD_AUDIO 0.1 [1, 2, 3, 4], CMD_AUDIO (- 0.1) [5, 6, 7, 8], CMD_DROPS 300],
         recovery_requests = 0\<rparr>\<rparr>"

definition sample_end :: player where
  "sample_end =
     streaming_player\<lparr>recent := 0, cnt := 2, stat_time_drops := 1, stat_total_delay := - 0.2,
        recent_start := 1,
        chunk_queue := \<lparr>chunk_list = [], recovery_requests = 1\<rparr>,
        effects := [GetWriteAvailable 2048, Write [1, 2, 3, 4],
                    Print (DropChunk 1 (- 200) (- 100) 3),
                    Print (RecoveringLoss 300),
                    Print QueueEmptyWaiting, WaitChunkAvailable, Sleep 0.025,
                    Print (StreamFlowing 0)]\<rparr>"

text \<open>A streaming player with \<open>n\<close> chunks counted in the window and one chunk pending.\<close>

definition window_player :: "int \<Rightarrow> real \<Rightarrow> player" where
  "window_player n mark =
     streaming_player\<lparr>recent := n, cnt := n, stat_total_delay := 3,
        chunk_queue := \<lparr>chunk_list = [CMD_AUDIO mark [1, 2, 3, 4]], recovery_requests = 0\<rparr>\<rparr>"

section \<open>Auxiliary facts\<close>

subsection \<open>Recovery and the effect log\<close>

lemma first_cfg_filter:
  "(case first_cfg xs of None \<Rightarrow> [] | Some item \<Rightarrow> [CMD_CFG item]) = take 1 (filter is_cfg xs)"
  by (induction xs rule: first_cfg.induct) simp_all

lemma clear_state_chunk_list:
  "chunk_list (chunk_queue (clear_state st)) = take 1 (filter is_cfg (chunk_list (chunk_queue st)))"
  by (simp add: clear_state_def do_recovery_def Let_def first_cfg_filter)

lemma clear_state_fields:
  "silence_to_insert (clear_state st) = 0"
  "recovery_requests (chunk_queue (clear_state st)) = Suc (recovery_requests (chunk_queue st))"
  "stat_time_drops (clear_state st) = stat_time_drops st"
  "stat_output_delays (clear_state st) = stat_output_delays st"
  "cnt (clear_state st) = cnt st"
  "silence_cache (clear_state st) = silence_cache st"
  "effects (clear_state st) = effects st"
  "stream (clear_state st) = stream st"
  "audio_cfg (clear_state st) = audio_cfg st"
  "max_delay (clear_state st) = max_delay st"
  "sink_latency (clear_state st) = sink_latency st"
  "tolerance (clear_state st) = tolerance st"
  "buffer_size (clear_state st) = buffer_size st"
  "device_index (clear_state st) = device_index st"
  by (simp_all add: clear_state_def do_recovery_def Let_def)

lemma emit_fields:
  "effects (emit x st) = effects st @ [x]"
  "stat_time_drops (emit x st) = stat_time_drops st"
  "stat_output_delays (emit x st) = stat_output_delays st"
  "cnt (emit x st) = cnt st"
  "recent (emit x st) = recent st"
  "recent_start (emit x st) = recent_start st"
  "chunk_queue (emit x st) = chunk_queue st"
  "silence_cache (emit x st) = silence_cache st"
  "silence_to_insert (emit x st) = silence_to_insert st"
  "stream (emit x st) = stream st"
  "audio_cfg (emit x st) = audio_cfg st"
  "max_delay (emit x st) = max_delay st"
  "sink_latency (emit x st) = sink_latency st"
  "tolerance (emit x st) = tolerance st"
  "frame_size (emit x st) = frame_size st"
  "chunk_frames (emit x st) = chunk_frames st"
  "receiver (emit x st) = receiver st"
  "stat_total_delay (emit x st) = stat_total_delay st"
  "buffer_size (emit x st) = buffer_size st"
  "device_index (emit x st) = device_index st"
  by (simp_all add: emit_def)

subsection \<open>The writer loop\<close>

lemma stuck_polls_step:
  "n \<le> 100 \<Longrightarrow>
   stuck_polls av delay n = GetWriteAvailable (av n) # Sleep (max one_msec delay) # stuck_polls av delay (Suc n)"
  by (simp add: stuck_polls_def upt_conv_Cons)

lemma stuck_polls_end: "stuck_polls av delay 101 = []"
  by (simp add: stuck_polls_def)

lemma write_loop_stuck:
  assumes "\<forall>k. n \<le> k \<and> k \<le> 100 \<longrightarrow> real_of_int (av k) < cf" and "n \<le> 100"
  shows "write_loop av cf delay chunk n st =
           (av 100, st\<lparr>stat_output_delays := stat_output_delays st + int (101 - n),
                        effects := effects st @ stuck_polls av delay n @ [Print OutputStuck, Sleep 1]\<rparr>)"
  using assms
proof (induction av cf delay chunk n st rule: write_loop.induct)
  case (1 av cf delay chunk n st)
  have full: "real_of_int (av n) < cf" using "1.prems" by simp
  show ?case
  proof (cases "n = 100")
    case True
    then show ?thesis
      using full
      by (subst write_loop.simps)
         (simp add: Let_def emit_def stuck_polls_step stuck_polls_end)
  next
    case False
    then have lt: "n < 100" using "1.prems" by simp
    have rest: "\<forall>k. Suc n \<le> k \<and> k \<le> 100 \<longrightarrow> real_of_int (av k) < cf"
      using "1.prems" by simp
    have le: "Suc n \<le> 100" using lt by simp
    have n101: "int (101 - n) = 1 + int (101 - Suc n)" using lt by simp
    show ?thesis
      using full lt "1.IH" [OF refl refl full refl _ rest le]
      by (subst write_loop.simps)
         (simp add: Let_def emit_def stuck_polls_step n101)
  qed
qed

lemma write_loop_free:
  "\<not> real_of_int (av n) < cf \<Longrightarrow>
   write_loop av cf delay chunk n st = (av n, emit (Write chunk) (emit (GetWriteAvailable (av n)) st))"
  by (subst write_loop.simps) (simp add: Let_def)

lemma write_loop_frame:
  "\<exists>b k new. write_loop av cf delay chunk n st =
      (b, st\<lparr>stat_output_delays := stat_output_delays st + int k,
             effects := effects st @ GetWriteAvailable (av n) # new\<rparr>)"
proof (induction av cf delay chunk n st rule: write_loop.induct)
  case (1 av cf delay chunk n st)
  show ?case
  proof (cases "real_of_int (av n) < cf")
    case False
    have "write_loop av cf delay chunk n st =
            (av n, st\<lparr>stat_output_delays := stat_output_delays st + int 0,
                       effects := effects st @ GetWriteAvailable (av n) # [Write chunk]\<rparr>)"
      using False by (simp add: write_loop_free emit_def)
    then show ?thesis by blast
  next
    case full: True
    show ?thesis
    proof (cases "Suc n > 100")
      case True
      have "write_loop av cf delay chunk n st =
            (av n, st\<lparr>stat_output_delays := stat_output_delays st + int 1,
                       effects := effects st @ GetWriteAvailable (av n) #
                          [Sleep (max one_msec delay), Print OutputStuck, Sleep 1]\<rparr>)"
        using full True by (subst write_loop.simps) (simp add: Let_def emit_def)
      then show ?thesis by blast
    next
      case False
      define st2 where "st2 = emit (Sleep (max one_msec delay))
            ((emit (GetWriteAvailable (av n)) st)
               \<lparr>stat_output_delays := stat_output_delays (emit (GetWriteAvailable (av n)) st) + 1\<rparr>)"
      from "1.IH" [OF refl refl full st2_def False]
      obtain b k new where r: "write_loop av cf delay chunk (Suc n) st2 =
          (b, st2\<lparr>stat_output_delays := stat_output_delays st2 + int k,
                  effects := effects st2 @ GetWriteAvailable (av (Suc n)) # new\<rparr>)"
        by blast
      have "write_loop av cf delay chunk n st = write_loop av cf delay chunk (Suc n) st2"
        using full False by (subst write_loop.simps) (simp add: Let_def st2_def)
      then have "write_loop av cf delay chunk n st =
          (b, st\<lparr>stat_output_delays := stat_output_delays st + int (Suc k),
                 effects := effects st @ GetWriteAvailable (av n) #
                    (Sleep (max one_msec delay) # GetWriteAvailable (av (Suc n)) # new)\<rparr>)"
        using r by (simp add: st2_def emit_def)
      then show ?thesis by blast
    qed
  qed
qed

subsection \<open>The status block\<close>

lemma receive_fields:
  "effects (receive e st) = effects st"
  "stat_time_drops (receive e st) = stat_time_drops st"
  "stat_output_delays (receive e st) = stat_output_delays st"
  "cnt (receive e st) = cnt st"
  "recent (receive e st) = recent st"
  "recent_start (receive e st) = recent_start st"
  "frame_size (receive e st) = frame_size st"
  "receiver (receive e st) = receiver st"
  "stat_total_delay (receive e st) = stat_total_delay st"
  "chunk_list (chunk_queue (receive e st)) = chunk_list (chunk_queue st) @ arrivals e"
  by (simp_all add: receive_def)

lemma main_status_quiet: "recent st \<le> 200 \<Longrightarrow> main_status e b chunk st = Inr st"
  by (simp add: main_status_def)

lemma main_status_keeps:
  assumes "main_status e b chunk st = Inr st1"
  shows "stat_time_drops st1 = stat_time_drops st"
    and "stat_output_delays st1 = stat_output_delays st"
    and "cnt st1 = cnt st"
    and "\<exists>new. effects st1 = effects st @ new \<and> (\<forall>x \<in> set new. \<exists>m. x = Print m)"
  using assms
  by (auto simp add: main_status_def Let_def emit_def
           split: if_splits option.splits)

lemma main_status_report:
  assumes "recent st > 200" and "frame_size st = Some fs" and "fs \<noteq> 0" and "chunk \<noteq> []"
    and "clock e \<noteq> recent_start st" and "cnt st \<noteq> 0"
  shows "\<exists>st1 s warn. main_status e b chunk st = Inr st1
           \<and> effects st1 = effects st @ Print (Stat s) # warn
           \<and> avg_delay s = 1000 * stat_total_delay st / real_of_int (cnt st)
           \<and> drops_time s = stat_time_drops st
           \<and> out_delay s = stat_output_delays st
           \<and> (receiver st = None \<longrightarrow> net_lat_ms s = 0 \<and> drops_net s = 0 \<and> warn = [])
           \<and> recent st1 = 0 \<and> recent_start st1 = clock_after e"
  using assms
  by (cases "receiver st") (simp_all add: main_status_def Let_def emit_def)

subsection \<open>Writer and status together\<close>

lemma write_and_report_keeps:
  assumes "write_and_report e delay chunk st = Inr st1"
  shows "stat_time_drops st1 = stat_time_drops st"
    and "cnt st1 = cnt st"
    and "stat_output_delays st \<le> stat_output_delays st1"
    and "\<exists>new. effects st1 = effects st @ GetWriteAvailable (avail e 0) # new"
proof -
  from assms obtain cf where cf: "chunk_frames st = Some cf"
    by (auto simp add: write_and_report_def split: option.splits)
  obtain b k new where w: "write_loop (avail e) cf delay chunk 0 st =
      (b, st\<lparr>stat_output_delays := stat_output_delays st + int k,
             effects := effects st @ GetWriteAvailable (avail e 0) # new\<rparr>)"
    using write_loop_frame by blast
  define st2 where "st2 = receive e (st\<lparr>stat_output_delays := stat_output_delays st + int k,
             effects := effects st @ GetWriteAvailable (avail e 0) # new\<rparr>)"
  have m: "main_status e b chunk st2 = Inr st1"
    using assms cf w by (simp add: write_and_report_def st2_def)
  show "stat_time_drops st1 = stat_time_drops st"
    using main_status_keeps(1) [OF m] by (simp add: st2_def receive_fields)
  show "cnt st1 = cnt st"
    using main_status_keeps(3) [OF m] by (simp add: st2_def receive_fields)
  show "stat_output_delays st \<le> stat_output_delays st1"
    using main_status_keeps(2) [OF m] by (simp add: st2_def receive_fields)
  from main_status_keeps(4) [OF m] obtain more where "effects st1 = effects st2 @ more"
    by blast
  then have "effects st1 = effects st @ GetWriteAvailable (avail e 0) # (new @ more)"
    by (simp add: st2_def receive_fields)
  then show "\<exists>new. effects st1 = effects st @ GetWriteAvailable (avail e 0) # new"
    by blast
qed

lemma write_and_report_stuck:
  assumes "chunk_frames st = Some cf" and "\<forall>k \<le> 100. real_of_int (avail e k) < cf"
    and "recent st \<le> 200"
  shows "write_and_report e delay chunk st =
           Inr (receive e (st\<lparr>stat_output_delays := stat_output_delays st + 101,
                  effects := effects st @ stuck_polls (avail e) delay 0 @ [Print OutputStuck, Sleep 1]\<rparr>))"
proof -
  have "write_loop (avail e) cf delay chunk 0 st =
          (avail e 100, st\<lparr>stat_output_delays := stat_output_delays st + int (101 - 0),
              effects := effects st @ stuck_polls (avail e) delay 0 @ [Print OutputStuck, Sleep 1]\<rparr>)"
    by (rule write_loop_stuck) (use assms in simp_all)
  then show ?thesis
    using assms(1,3) by (simp add: write_and_report_def main_status_quiet receive_def)
qed

lemma write_not_in_stuck_polls: "Write c \<notin> set (stuck_polls av delay n)"
  by (auto simp add: stuck_polls_def)

lemma length_stuck_polls: "length (filter (\<lambda>x. x = Sleep (max one_msec delay)) (stuck_polls av delay 0)) = 101"
proof -
  have "length (filter (\<lambda>x. x = Sleep (max one_msec delay))
          (concat (map (\<lambda>k. [GetWriteAvailable (av k), Sleep (max one_msec delay)]) ks))) = length ks" for ks
    by (induction ks) simp_all
  then show ?thesis by (simp add: stuck_polls_def)
qed

subsection \<open>Configuration and loss events\<close>

lemma on_cfg_result:
  assumes "channels item \<noteq> 0"
  shows "\<exists>st1. on_cfg item st = Inr st1
           \<and> max_delay st1 = 0.2 + sink_latency st + real_of_int (latency_msec item) / 1000
           \<and> frame_size st1 = Some (if sample item = 24 then 3 * channels item else 2 * channels item)
           \<and> chunk_frames st1 = Some (real_of_int (chunk_size item) /
                 real_of_int (if sample item = 24 then 3 * channels item else 2 * channels item))
           \<and> stream st1 \<noteq> None
           \<and> audio_cfg st1 = Some item
           \<and> silence_cache st1 = silence_cache st
           \<and> sink_latency st1 = sink_latency st
           \<and> tolerance st1 = tolerance st
           \<and> stat_time_drops st1 = stat_time_drops st
           \<and> stat_output_delays st1 = stat_output_delays st
           \<and> cnt st1 = cnt st"
proof (cases "stream st")
  case None
  then show ?thesis
    using assms
    by (simp add: on_cfg_def open_stream_def Let_def clear_state_fields emit_fields)
next
  case (Some h)
  then show ?thesis
    using assms
    by (simp add: on_cfg_def open_stream_def close_stream_def Let_def
          clear_state_fields emit_fields)
qed

lemma on_drops_keeps:
  "stat_time_drops (on_drops item st) = stat_time_drops st"
  "stat_output_delays (on_drops item st) = stat_output_delays st"
  "cnt (on_drops item st) = cnt st"
  by (simp_all add: on_drops_def clear_state_fields emit_fields)

lemma on_empty_keeps:
  "stat_time_drops (on_empty e st) = stat_time_drops st"
  "stat_output_delays (on_empty e st) = stat_output_delays st"
  "cnt (on_empty e st) = cnt st"
  "recent (on_empty e st) = 0"
  "recent_start (on_empty e st) = clock e"
  by (simp_all add: on_empty_def Let_def emit_fields receive_fields receive_def emit_def
        split: option.splits)

lemma pop_front_fields:
  "stat_time_drops (pop_front xs st) = stat_time_drops st"
  "stat_output_delays (pop_front xs st) = stat_output_delays st"
  "cnt (pop_front xs st) = cnt st"
  "stream (pop_front xs st) = stream st"
  "sink_latency (pop_front xs st) = sink_latency st"
  "tolerance (pop_front xs st) = tolerance st"
  "max_delay (pop_front xs st) = max_delay st"
  "silence_cache (pop_front xs st) = silence_cache st"
  "silence_to_insert (pop_front xs st) = silence_to_insert st"
  "effects (pop_front xs st) = effects st"
  "chunk_frames (pop_front xs st) = chunk_frames st"
  "recent (pop_front xs st) = recent st"
  "chunk_list (chunk_queue (pop_front xs st)) = xs"
  "recovery_requests (chunk_queue (pop_front xs st)) = recovery_requests (chunk_queue st)"
  by (simp_all add: pop_front_def)

section \<open>Recovery\<close>

text \<open>
  C1 (as amended). After \<open>clear_state\<close> the queue holds at most one event: the first
  \<open>CMD_CFG\<close> entry of the pending events in queue order (the oldest pending one), if
  there is one, and nothing otherwise; \<open>silence_to_insert\<close> is 0.
\<close>

theorem clear_state_keeps_first_cfg:
  "chunk_list (chunk_queue (clear_state st)) = take 1 (filter is_cfg (chunk_list (chunk_queue st)))
   \<and> length (chunk_list (chunk_queue (clear_state st))) \<le> 1
   \<and> silence_to_insert (clear_state st) = 0"
  by (simp add: clear_state_chunk_list clear_state_fields)

text \<open>
  C1 as stated fails: with two different configurations pending, the one kept is the
  first, while the most recent one is the last.
\<close>

theorem clear_state_most_recent_cfg_counterexample:
  "chunk_list (chunk_queue (clear_state
      (idle_player\<lparr>chunk_queue :=
         \<lparr>chunk_list = [CMD_CFG scenario_a, CMD_AUDIO 0 [], CMD_CFG scenario_b],
          recovery_requests = 0\<rparr>\<rparr>)))
     = [CMD_CFG scenario_a]
   \<and> last (filter is_cfg [CMD_CFG scenario_a, CMD_AUDIO 0 [], CMD_CFG scenario_b]) = CMD_CFG scenario_b
   \<and> scenario_a \<noteq> scenario_b"
  by (simp add: clear_state_def do_recovery_def Let_def idle_player_def init_def
        scenario_a_def scenario_b_def)

section \<open>Loss notices\<close>

text \<open>
  C3. An iteration on \<open>CMD_DROPS n\<close>: when \<open>n > 200\<close> it is a full recovery
  (\<open>clear_state\<close>: one more recovery request, \<open>silence_to_insert\<close> back to 0, not
  increased); when \<open>n \<le> 200\<close> there is no recovery, the pending events stay and
  \<open>n\<close> is added to \<open>silence_to_insert\<close>.
\<close>

theorem loss_notice_boundary:
  assumes "chunk_list (chunk_queue st) = CMD_DROPS n # xs"
  shows "\<exists>st1. step e st = Inr st1
           \<and> (n > 200 \<longrightarrow>
                 st1 = clear_state (emit (Print (RecoveringLoss n)) (pop_front xs st))
                 \<and> recovery_requests (chunk_queue st1) = Suc (recovery_requests (chunk_queue st))
                 \<and> silence_to_insert st1 = 0)
           \<and> (n \<le> 200 \<longrightarrow>
                 recovery_requests (chunk_queue st1) = recovery_requests (chunk_queue st)
                 \<and> chunk_list (chunk_queue st1) = xs
                 \<and> effects st1 = effects st
                 \<and> silence_to_insert st1 = silence_to_insert st + n)"
  using assms
  by (simp add: step_def on_drops_def clear_state_fields emit_fields pop_front_fields)

theorem loss_notice_boundary_witness:
  "(\<exists>st1. step quiet_env
            (idle_player\<lparr>silence_to_insert := 7,
               chunk_queue := \<lparr>chunk_list = [CMD_DROPS 201, CMD_AUDIO 0 []], recovery_requests = 0\<rparr>\<rparr>)
          = Inr st1
        \<and> recovery_requests (chunk_queue st1) = 1 \<and> silence_to_insert st1 = 0)
   \<and> (\<exists>st1. step quiet_env
            (idle_player\<lparr>silence_to_insert := 7,
               chunk_queue := \<lparr>chunk_list = [CMD_DROPS 200, CMD_AUDIO 0 []], recovery_requests = 0\<rparr>\<rparr>)
          = Inr st1
        \<and> recovery_requests (chunk_queue st1) = 0 \<and> chunk_list (chunk_queue st1) = [CMD_AUDIO 0 []]
        \<and> silence_to_insert st1 = 207)"
  using
    loss_notice_boundary [of "idle_player\<lparr>silence_to_insert := 7,
        chunk_queue := \<lparr>chunk_list = [CMD_DROPS 201, CMD_AUDIO 0 []], recovery_requests = 0\<rparr>\<rparr>"
      201 "[CMD_AUDIO 0 []]" quiet_env]
    loss_notice_boundary [of "idle_player\<lparr>silence_to_insert := 7,
        chunk_queue := \<lparr>chunk_list = [CMD_DROPS 200, CMD_AUDIO 0 []], recovery_requests = 0\<rparr>\<rparr>"
      200 "[CMD_AUDIO 0 []]" quiet_env]
  by (auto simp add: idle_player_def init_def)

section \<open>Configuration changes\<close>

text \<open>
  C7. An iteration on \<open>CMD_CFG c\<close> (with at least one channel) leaves
  \<open>frame_size = 3 * channels\<close> when \<open>sample = 24\<close> and \<open>2 * channels\<close> otherwise, and
  \<open>chunk_frames = chunk_size / frame_size\<close>. For scenario A this is 4 and 1024.
\<close>

theorem config_change_frame_sizes:
  assumes "chunk_list (chunk_queue st) = CMD_CFG c # xs" and "channels c \<noteq> 0"
  shows "\<exists>st1 fs. step e st = Inr st1
           \<and> fs = (if sample c = 24 then 3 * channels c else 2 * channels c)
           \<and> frame_size st1 = Some fs
           \<and> chunk_frames st1 = Some (real_of_int (chunk_size c) / real_of_int fs)"
  using assms on_cfg_result [of c "pop_front xs st"]
  by (auto simp add: step_def)

theorem config_change_frame_sizes_witness:
  "\<exists>st1. step quiet_env
           (idle_player\<lparr>chunk_queue := \<lparr>chunk_list = [CMD_CFG scenario_a], recovery_requests = 0\<rparr>\<rparr>)
         = Inr st1
       \<and> frame_size st1 = Some 4 \<and> chunk_frames st1 = Some 1024"
  using config_change_frame_sizes
    [of "idle_player\<lparr>chunk_queue := \<lparr>chunk_list = [CMD_CFG scenario_a], recovery_requests = 0\<rparr>\<rparr>"
        scenario_a "[]" quiet_env]
  by (auto simp add: scenario_a_def)

section \<open>Auxiliary facts on audio chunks and iterations\<close>

subsection \<open>Audio chunks\<close>

lemma count_chunk_fields:
  "stat_time_drops (count_chunk d st) = stat_time_drops st"
  "stat_output_delays (count_chunk d st) = stat_output_delays st"
  "cnt (count_chunk d st) = cnt st + 1"
  "recent (count_chunk d st) = recent st + 1"
  "effects (count_chunk d st) = effects st"
  "mid_tolerance (count_chunk d st) = mid_tolerance st"
  "max_delay (count_chunk d st) = max_delay st"
  "chunk_frames (count_chunk d st) = chunk_frames st"
  "chunk_queue (count_chunk d st) = chunk_queue st"
  "stat_total_delay (count_chunk d st) = stat_total_delay st + d"
  by (simp_all add: count_chunk_def mid_tolerance_def)

lemma drop_chunk_fields:
  "stat_time_drops (drop_chunk d p st) = stat_time_drops st + 1"
  "stat_output_delays (drop_chunk d p st) = stat_output_delays st"
  "cnt (drop_chunk d p st) = cnt st"
  "effects (drop_chunk d p st) =
     effects st @ [Print (DropChunk (length (chunk_list (chunk_queue st))) (d * 1000) (- tolerance st * 1000) p)]"
  by (simp_all add: drop_chunk_def emit_def)

lemma on_audio_late:
  assumes "stream st \<noteq> None" and "chunk_delay e mark st < - mid_tolerance st"
    and "mid_tolerance st \<noteq> 0"
  shows "on_audio e mark chunk st =
           (if rand e < (- chunk_delay e mark st - mid_tolerance st) / mid_tolerance st
            then Inr (drop_chunk (chunk_delay e mark st)
                        ((- chunk_delay e mark st - mid_tolerance st) / mid_tolerance st)
                        (count_chunk (chunk_delay e mark st) st))
            else write_and_report e (chunk_delay e mark st) chunk
                   (count_chunk (chunk_delay e mark st) st))"
  using assms by (cases "stream st") (simp_all add: on_audio_def Let_def count_chunk_fields)

lemma on_audio_recovers:
  assumes "stream st \<noteq> None" and "\<not> chunk_delay e mark st < - mid_tolerance st"
    and "chunk_delay e mark st > max_delay st"
  shows "on_audio e mark chunk st =
           Inr (clear_state (emit (Print (HugeRecovery (chunk_delay e mark st) (max_delay st)))
                  (count_chunk (chunk_delay e mark st) st)))"
  using assms by (cases "stream st") (simp_all add: on_audio_def Let_def count_chunk_fields)

lemma on_audio_plays:
  assumes "stream st \<noteq> None" and "\<not> chunk_delay e mark st < - mid_tolerance st"
    and "\<not> chunk_delay e mark st > max_delay st"
  shows "on_audio e mark chunk st =
           write_and_report e (chunk_delay e mark st) chunk
             (if chunk_delay e mark st > one_msec
              then emit (Sleep (max one_msec (chunk_delay e mark st - one_msec)))
                     (count_chunk (chunk_delay e mark st) st)
              else count_chunk (chunk_delay e mark st) st)"
  using assms by (cases "stream st") (simp_all add: on_audio_def Let_def count_chunk_fields)

lemma on_audio_monotone:
  assumes "on_audio e mark chunk st = Inr st1"
  shows "stat_time_drops st \<le> stat_time_drops st1"
    and "stat_output_delays st \<le> stat_output_delays st1"
    and "cnt st \<le> cnt st1"
proof -
  have "stat_time_drops st \<le> stat_time_drops st1 \<and> stat_output_delays st \<le> stat_output_delays st1
        \<and> cnt st \<le> cnt st1"
  proof (cases "stream st = None")
    case True
    then show ?thesis using assms by (simp add: on_audio_def)
  next
    case open_dev: False
    let ?d = "chunk_delay e mark st"
    let ?c = "count_chunk ?d st"
    have w: "stat_time_drops st \<le> stat_time_drops st1 \<and> stat_output_delays st \<le> stat_output_delays st1
        \<and> cnt st \<le> cnt st1"
      if "write_and_report e ?d chunk s = Inr st1" and "s = ?c \<or> s = emit x ?c" for s x
      using write_and_report_keeps [OF that(1)] that(2)
      by (auto simp add: count_chunk_fields emit_fields)
    show ?thesis
    proof (cases "?d < - mid_tolerance st")
      case True
      then have nz: "mid_tolerance st \<noteq> 0"
        using assms open_dev by (auto simp add: on_audio_def Let_def count_chunk_fields)
      show ?thesis
      proof (cases "rand e < (- ?d - mid_tolerance st) / mid_tolerance st")
        case True
        then show ?thesis
          using assms on_audio_late [OF open_dev \<open>?d < - mid_tolerance st\<close> nz, of chunk]
          by (auto simp add: drop_chunk_fields count_chunk_fields)
      next
        case False
        then have "write_and_report e ?d chunk ?c = Inr st1"
          using assms on_audio_late [OF open_dev \<open>?d < - mid_tolerance st\<close> nz, of chunk]
          by simp
        then show ?thesis using w by blast
      qed
    next
      case in_time: False
      show ?thesis
      proof (cases "?d > max_delay st")
        case True
        then show ?thesis
          using assms on_audio_recovers [OF open_dev in_time True, of chunk]
          by (auto simp add: clear_state_fields emit_fields count_chunk_fields)
      next
        case False
        show ?thesis
          using assms on_audio_plays [OF open_dev in_time False, of chunk] w
          by (auto split: if_splits)
      qed
    qed
  qed
  then show "stat_time_drops st \<le> stat_time_drops st1"
    and "stat_output_delays st \<le> stat_output_delays st1"
    and "cnt st \<le> cnt st1"
    by simp_all
qed

subsection \<open>Iterations\<close>

lemma step_monotone:
  assumes "step e st = Inr st1"
  shows "stat_time_drops st \<le> stat_time_drops st1 \<and> stat_output_delays st \<le> stat_output_delays st1
        \<and> cnt st \<le> cnt st1"
proof (cases "chunk_list (chunk_queue st)")
  case Nil
  then show ?thesis using assms by (auto simp add: step_def on_empty_keeps)
next
  case (Cons x xs)
  show ?thesis
  proof (cases x)
    case (CMD_CFG item)
    then have r: "on_cfg item (pop_front xs st) = Inr st1"
      using assms Cons by (simp add: step_def)
    show ?thesis
    proof (cases "channels item = 0")
      case True
      then have "on_cfg item (pop_front xs st) = Inl ZeroDivisionError"
        by (cases "stream st")
           (simp_all add: on_cfg_def open_stream_def close_stream_def Let_def
              clear_state_fields emit_fields pop_front_fields)
      then show ?thesis using r by simp
    next
      case False
      from on_cfg_result [OF False, of "pop_front xs st"] r show ?thesis
        by (auto simp add: pop_front_fields)
    qed
  next
    case (CMD_DROPS n)
    then show ?thesis
      using assms Cons by (auto simp add: step_def on_drops_keeps pop_front_fields)
  next
    case (CMD_AUDIO mark chunk)
    then have "on_audio e mark chunk (pop_front xs st) = Inr st1"
      using assms Cons by (simp add: step_def)
    from on_audio_monotone [OF this] show ?thesis by (simp add: pop_front_fields)
  qed
qed

lemma step_cfg:
  "chunk_list (chunk_queue st) = CMD_CFG c # xs \<Longrightarrow> step e st = on_cfg c (pop_front xs st)"
  by (simp add: step_def)

lemma step_audio:
  "chunk_list (chunk_queue st) = CMD_AUDIO mark chunk # xs \<Longrightarrow>
   step e st = on_audio e mark chunk (pop_front xs st)"
  by (simp add: step_def)

lemma pop_front_delay:
  "chunk_delay e mark (pop_front xs st) = chunk_delay e mark st"
  "mid_tolerance (pop_front xs st) = mid_tolerance st"
  by (simp_all add: chunk_delay_def mid_tolerance_def pop_front_def)

section \<open>The maximum delay\<close>

text \<open>
  C6. An iteration on \<open>CMD_CFG c\<close> leaves \<open>max_delay = 0.2 + sink_latency +
  latency_msec / 1000\<close> and an open device. In a later state that still has this
  \<open>max_delay\<close> and an open device, an audio chunk whose delay exceeds it (and is not
  below minus half the tolerance, as no positive delay is unless the tolerance is
  negative) is answered by \<open>clear_state\<close>: one more recovery request,
  and nothing polled or written.
\<close>

theorem config_change_max_delay:
  assumes "chunk_list (chunk_queue st) = CMD_CFG c # xs" and "channels c \<noteq> 0"
    and "chunk_list (chunk_queue st2) = CMD_AUDIO mark chunk # ys"
    and "stream st2 \<noteq> None"
    and "max_delay st2 = 0.2 + sink_latency st + real_of_int (latency_msec c) / 1000"
    and "- mid_tolerance st2 \<le> chunk_delay e2 mark st2"
    and "chunk_delay e2 mark st2 > max_delay st2"
  shows "(\<exists>st1. step e st = Inr st1
            \<and> max_delay st1 = 0.2 + sink_latency st + real_of_int (latency_msec c) / 1000
            \<and> stream st1 \<noteq> None)
       \<and> (\<exists>st3. step e2 st2 = Inr st3
            \<and> recovery_requests (chunk_queue st3) = Suc (recovery_requests (chunk_queue st2))
            \<and> chunk_list (chunk_queue st3) = take 1 (filter is_cfg ys)
            \<and> added st2 st3 = [Print (HugeRecovery (chunk_delay e2 mark st2) (max_delay st2))])"
proof
  show "\<exists>st1. step e st = Inr st1
            \<and> max_delay st1 = 0.2 + sink_latency st + real_of_int (latency_msec c) / 1000
            \<and> stream st1 \<noteq> None"
    using on_cfg_result [OF assms(2), of "pop_front xs st"] step_cfg [OF assms(1), of e]
    by (auto simp add: pop_front_fields)
next
  let ?p = "pop_front ys st2"
  have open_dev: "stream ?p \<noteq> None" using assms(4) by (simp add: pop_front_fields)
  have in_time: "\<not> chunk_delay e2 mark ?p < - mid_tolerance ?p"
    using assms(6) by (simp add: pop_front_delay)
  have late: "chunk_delay e2 mark ?p > max_delay ?p"
    using assms(7) by (simp add: pop_front_delay pop_front_fields)
  have "step e2 st2 = Inr (clear_state (emit (Print (HugeRecovery (chunk_delay e2 mark ?p) (max_delay ?p)))
                  (count_chunk (chunk_delay e2 mark ?p) ?p)))"
    using on_audio_recovers [OF open_dev in_time late, of chunk] step_audio [OF assms(3), of e2]
    by simp
  then show "\<exists>st3. step e2 st2 = Inr st3
            \<and> recovery_requests (chunk_queue st3) = Suc (recovery_requests (chunk_queue st2))
            \<and> chunk_list (chunk_queue st3) = take 1 (filter is_cfg ys)
            \<and> added st2 st3 = [Print (HugeRecovery (chunk_delay e2 mark st2) (max_delay st2))]"
    by (simp add: clear_state_fields clear_state_chunk_list emit_fields count_chunk_fields
          pop_front_fields pop_front_delay added_def)
qed

theorem config_change_max_delay_witness:
  "(\<exists>st1. step quiet_env
             (idle_player\<lparr>chunk_queue := \<lparr>chunk_list = [CMD_CFG scenario_a], recovery_requests = 0\<rparr>\<rparr>)
           = Inr st1
         \<and> max_delay st1 = 0.4 \<and> stream st1 \<noteq> None)
   \<and> (\<exists>st3. step quiet_env
             (streaming_player\<lparr>chunk_queue :=
                \<lparr>chunk_list = [CMD_AUDIO 0.6 [1, 2, 3, 4], CMD_AUDIO 0.7 [5, 6, 7, 8]],
                 recovery_requests = 0\<rparr>\<rparr>)
           = Inr st3
         \<and> recovery_requests (chunk_queue st3) = 1
         \<and> chunk_list (chunk_queue st3) = []
         \<and> added (streaming_player\<lparr>chunk_queue :=
                \<lparr>chunk_list = [CMD_AUDIO 0.6 [1, 2, 3, 4], CMD_AUDIO 0.7 [5, 6, 7, 8]],
                 recovery_requests = 0\<rparr>\<rparr>) st3
             = [Print (HugeRecovery 0.5 0.4)])"
  using config_change_max_delay
    [of "idle_player\<lparr>chunk_queue := \<lparr>chunk_list = [CMD_CFG scenario_a], recovery_requests = 0\<rparr>\<rparr>"
        scenario_a "[]"
        "streaming_player\<lparr>chunk_queue :=
                \<lparr>chunk_list = [CMD_AUDIO 0.6 [1, 2, 3, 4], CMD_AUDIO 0.7 [5, 6, 7, 8]],
                 recovery_requests = 0\<rparr>\<rparr>"
        "0.6" "[1, 2, 3, 4]" "[CMD_AUDIO 0.7 [5, 6, 7, 8]]" quiet_env quiet_env]
  by (auto simp add: scenario_a_def idle_player_def streaming_player_def init_def quiet_env_def
        chunk_delay_def mid_tolerance_def)

section \<open>The silence cache\<close>

text \<open>
  C8. Nothing in an iteration on \<open>CMD_CFG\<close> touches \<open>silence_cache\<close>: a buffer cached
  under the previous configuration is what \<open>get_silent_chunk\<close> returns afterwards,
  whatever the new \<open>chunk_size\<close>. The claim asks for a buffer of the new size.
\<close>

theorem config_change_keeps_silence_cache:
  assumes "chunk_list (chunk_queue st) = CMD_CFG c # xs" and "channels c \<noteq> 0"
    and "silence_cache st = Some old"
  shows "\<exists>st1. step e st = Inr st1 \<and> audio_cfg st1 = Some c
           \<and> get_silent_chunk st1 = Inr (old, st1)"
  using assms on_cfg_result [of c "pop_front xs st"] step_cfg [of st c xs e]
  by (auto simp add: pop_front_fields get_silent_chunk_def)

theorem config_change_keeps_silence_cache_witness:
  "\<exists>st1. step quiet_env
           (idle_player\<lparr>silence_cache := Some [0, 0, 0, 0],
              chunk_queue := \<lparr>chunk_list = [CMD_CFG scenario_a], recovery_requests = 0\<rparr>\<rparr>)
         = Inr st1
       \<and> audio_cfg st1 = Some scenario_a
       \<and> chunk_size scenario_a = 4096
       \<and> map_sum id (length \<circ> fst) (get_silent_chunk st1) = Inr 4"
  using config_change_keeps_silence_cache
    [of "idle_player\<lparr>silence_cache := Some [0, 0, 0, 0],
              chunk_queue := \<lparr>chunk_list = [CMD_CFG scenario_a], recovery_requests = 0\<rparr>\<rparr>"
        scenario_a "[]" "[0, 0, 0, 0]" quiet_env]
  by (auto simp add: scenario_a_def)

section \<open>The drop policy\<close>

text \<open>
  C2. For a chunk with an open device, a positive tolerance and a random draw in
  \<open>[0, 1)\<close>, with \<open>d\<close> the delay, \<open>m\<close> half the tolerance and \<open>over = - d - m\<close>:
  when \<open>d \<ge> - m\<close> the chunk is not dropped; when \<open>over > m\<close> it is dropped whatever the
  draw; when \<open>0 < over \<le> m\<close> it is dropped exactly when the draw is below \<open>over / m\<close>.
  A dropped chunk ends the iteration with \<open>stat_time_drops\<close> one higher, a message and
  nothing else.
\<close>

theorem drop_policy_ramp:
  assumes "stream st \<noteq> None" and "0 < tolerance st" and "0 \<le> rand e" and "rand e < 1"
  shows "let d = chunk_delay e mark st; m = mid_tolerance st; over = - d - m in
           (- m \<le> d \<longrightarrow> \<not> dropped e mark chunk st)
         \<and> (m < over \<longrightarrow> dropped e mark chunk st)
         \<and> (0 < over \<and> over \<le> m \<longrightarrow> dropped e mark chunk st = (rand e < over / m))
         \<and> (dropped e mark chunk st \<longrightarrow>
               on_audio e mark chunk st = Inr (drop_chunk d (over / m) (count_chunk d st))
               \<and> stat_time_drops (drop_chunk d (over / m) (count_chunk d st)) = stat_time_drops st + 1)"
proof -
  let ?d = "chunk_delay e mark st"
  let ?m = "mid_tolerance st"
  let ?over = "- ?d - ?m"
  let ?c = "count_chunk ?d st"
  have m: "0 < ?m" using assms(2) by (simp add: mid_tolerance_def)
  have keep: "\<not> dropped e mark chunk st"
    if "on_audio e mark chunk st = write_and_report e ?d chunk s" and "s = ?c \<or> s = emit x ?c"
    for s x
  proof (cases "write_and_report e ?d chunk s")
    case (Inl err)
    then show ?thesis using that(1) by (simp add: dropped_def)
  next
    case (Inr st1)
    from write_and_report_keeps(1) [OF Inr] that(2)
    have "stat_time_drops st1 = stat_time_drops st"
      by (auto simp add: count_chunk_fields emit_fields)
    then show ?thesis using that(1) Inr by (simp add: dropped_def)
  qed
  have in_time: "\<not> dropped e mark chunk st" if "- ?m \<le> ?d"
  proof (cases "?d > max_delay st")
    case True
    have "\<not> ?d < - ?m" using that by simp
    from on_audio_recovers [OF assms(1) this True, of chunk] show ?thesis
      by (simp add: dropped_def clear_state_fields emit_fields count_chunk_fields)
  next
    case False
    have "\<not> ?d < - ?m" using that by simp
    from on_audio_plays [OF assms(1) this False, of chunk] keep show ?thesis
      by (cases "?d > one_msec") auto
  qed
  have late: "on_audio e mark chunk st =
           (if rand e < ?over / ?m then Inr (drop_chunk ?d (?over / ?m) ?c)
            else write_and_report e ?d chunk ?c)" if "?d < - ?m"
    using on_audio_late [OF assms(1) that, of chunk] m by simp
  have is_drop: "dropped e mark chunk st"
    if "?d < - ?m" and "rand e < ?over / ?m"
    using late [OF that(1)] that(2)
    by (simp add: dropped_def drop_chunk_fields count_chunk_fields)
  have no_drop: "\<not> dropped e mark chunk st"
    if "?d < - ?m" and "\<not> rand e < ?over / ?m"
    using late [OF that(1)] that(2) keep by auto
  have always: "dropped e mark chunk st" if "?m < ?over"
  proof -
    have "1 < ?over / ?m" using that m by simp
    then have "rand e < ?over / ?m" using assms(4) by simp
    moreover have "?d < - ?m" using that m by simp
    ultimately show ?thesis using is_drop by simp
  qed
  have ramp: "dropped e mark chunk st = (rand e < ?over / ?m)" if "0 < ?over"
  proof -
    have "?d < - ?m" using that by simp
    then show ?thesis using is_drop no_drop by blast
  qed
  have result: "on_audio e mark chunk st = Inr (drop_chunk ?d (?over / ?m) ?c)"
    if "dropped e mark chunk st"
  proof -
    have l: "?d < - ?m" using that in_time by force
    then have "rand e < ?over / ?m" using that no_drop by blast
    then show ?thesis using late [OF l] by simp
  qed
  show ?thesis
    using in_time always ramp result
    by (simp add: Let_def drop_chunk_fields count_chunk_fields)
qed

theorem drop_policy_ramp_witness:
  "\<not> dropped (quiet_env\<lparr>rand := 0\<rparr>) 0.06 [1, 2, 3, 4] streaming_player
   \<and> dropped (quiet_env\<lparr>rand := 0.999\<rparr>) (-0.1) [1, 2, 3, 4] streaming_player
   \<and> dropped (quiet_env\<lparr>rand := 0.79\<rparr>) 0.01 [1, 2, 3, 4] streaming_player
   \<and> \<not> dropped (quiet_env\<lparr>rand := 0.8\<rparr>) 0.01 [1, 2, 3, 4] streaming_player
   \<and> map_sum id stat_time_drops (on_audio (quiet_env\<lparr>rand := 0.79\<rparr>) 0.01 [1, 2, 3, 4] streaming_player)
       = Inr 1"
  using
    drop_policy_ramp [of streaming_player "quiet_env\<lparr>rand := 0\<rparr>" "0.06" "[1, 2, 3, 4]"]
    drop_policy_ramp [of streaming_player "quiet_env\<lparr>rand := 0.999\<rparr>" "-0.1" "[1, 2, 3, 4]"]
    drop_policy_ramp [of streaming_player "quiet_env\<lparr>rand := 0.79\<rparr>" "0.01" "[1, 2, 3, 4]"]
    drop_policy_ramp [of streaming_player "quiet_env\<lparr>rand := 0.8\<rparr>" "0.01" "[1, 2, 3, 4]"]
  by (simp add: Let_def streaming_player_def idle_player_def init_def quiet_env_def
        chunk_delay_def mid_tolerance_def drop_chunk_def count_chunk_def emit_def)

section \<open>Waiting before the write\<close>

text \<open>
  C9. For a chunk with an open device and a tolerance that is not negative, neither
  dropped nor later than \<open>max_delay\<close>, whose iteration completes: when the delay
  exceeds one millisecond the first thing the iteration does is to sleep
  \<open>max one_msec (delay - one_msec)\<close>, and the first poll of the device follows; when
  the delay is at most one millisecond the first thing it does is that poll.
\<close>

theorem wait_before_write:
  assumes "stream st \<noteq> None" and "0 \<le> tolerance st"
    and "chunk_delay e mark st \<le> max_delay st"
    and "\<not> dropped e mark chunk st"
    and "on_audio e mark chunk st = Inr st1"
  shows "let d = chunk_delay e mark st in
           (one_msec < d \<longrightarrow>
              (\<exists>rest. added st st1 =
                 Sleep (max one_msec (d - one_msec)) # GetWriteAvailable (avail e 0) # rest))
         \<and> (d \<le> one_msec \<longrightarrow>
              (\<exists>rest. added st st1 = GetWriteAvailable (avail e 0) # rest))"
proof -
  let ?d = "chunk_delay e mark st"
  let ?m = "mid_tolerance st"
  let ?c = "count_chunk ?d st"
  have m: "0 \<le> ?m" using assms(2) by (simp add: mid_tolerance_def)
  have polls: "\<exists>rest. added st st1 = pre @ GetWriteAvailable (avail e 0) # rest"
    if "write_and_report e ?d chunk s = Inr st1" and "effects s = effects st @ pre" for s pre
  proof -
    from write_and_report_keeps(4) [OF that(1)] obtain new
      where "effects st1 = effects s @ GetWriteAvailable (avail e 0) # new" by blast
    then have "added st st1 = pre @ GetWriteAvailable (avail e 0) # new"
      using that(2) by (simp add: added_def)
    then show ?thesis by blast
  qed
  show ?thesis
  proof (cases "?d < - ?m")
    case True
    then have small: "?d \<le> one_msec" using m by (simp add: one_msec_def)
    have nz: "?m \<noteq> 0"
      using assms(1,5) True
      by (cases "stream st") (auto simp add: on_audio_def Let_def count_chunk_fields)
    have "\<not> rand e < (- ?d - ?m) / ?m"
    proof
      assume "rand e < (- ?d - ?m) / ?m"
      then have "on_audio e mark chunk st = Inr (drop_chunk ?d ((- ?d - ?m) / ?m) ?c)"
        using on_audio_late [OF assms(1) True nz, of chunk] by simp
      then have "dropped e mark chunk st"
        by (simp add: dropped_def drop_chunk_fields count_chunk_fields)
      then show False using assms(4) by simp
    qed
    then have "write_and_report e ?d chunk ?c = Inr st1"
      using on_audio_late [OF assms(1) True nz, of chunk] assms(5) by simp
    from polls [OF this, of "[]"] have "\<exists>rest. added st st1 = GetWriteAvailable (avail e 0) # rest"
      by (simp add: count_chunk_fields)
    then show ?thesis using small by (simp add: Let_def)
  next
    case False
    have not_late: "\<not> ?d > max_delay st" using assms(3) by simp
    show ?thesis
    proof (cases "?d > one_msec")
      case True
      then have "write_and_report e ?d chunk
                   (emit (Sleep (max one_msec (?d - one_msec))) ?c) = Inr st1"
        using on_audio_plays [OF assms(1) False not_late, of chunk] assms(5) by simp
      from polls [OF this, of "[Sleep (max one_msec (?d - one_msec))]"]
      have "\<exists>rest. added st st1 =
              Sleep (max one_msec (?d - one_msec)) # GetWriteAvailable (avail e 0) # rest"
        by (simp add: emit_fields count_chunk_fields)
      then show ?thesis using True by (simp add: Let_def)
    next
      case False
      then have "write_and_report e ?d chunk ?c = Inr st1"
        using on_audio_plays [OF assms(1) \<open>\<not> ?d < - ?m\<close> not_late, of chunk] assms(5) by simp
      from polls [OF this, of "[]"]
      have "\<exists>rest. added st st1 = GetWriteAvailable (avail e 0) # rest"
        by (simp add: count_chunk_fields)
      then show ?thesis using False by (simp add: Let_def)
    qed
  qed
qed

lemma streaming_early_chunk:
  "on_audio quiet_env 0.35 [1, 2, 3, 4] streaming_player =
     Inr (streaming_player\<lparr>stat_total_delay := 0.25, recent := 1, cnt := 1,
            effects := [Sleep 0.249, GetWriteAvailable 2048, Write [1, 2, 3, 4]]\<rparr>)"
  by (simp add: on_audio_def write_and_report_def write_loop.simps main_status_def receive_def
        Let_def streaming_player_def idle_player_def init_def quiet_env_def
        chunk_delay_def mid_tolerance_def count_chunk_def emit_def one_msec_def)

lemma streaming_due_chunk:
  "on_audio quiet_env 0.1 [1, 2, 3, 4] streaming_player =
     Inr (streaming_player\<lparr>stat_total_delay := 0, recent := 1, cnt := 1,
            effects := [GetWriteAvailable 2048, Write [1, 2, 3, 4]]\<rparr>)"
  by (simp add: on_audio_def write_and_report_def write_loop.simps main_status_def receive_def
        Let_def streaming_player_def idle_player_def init_def quiet_env_def
        chunk_delay_def mid_tolerance_def count_chunk_def emit_def one_msec_def)

theorem wait_before_write_witness:
  "on_audio quiet_env 0.35 [1, 2, 3, 4] streaming_player =
     Inr (streaming_player\<lparr>stat_total_delay := 0.25, recent := 1, cnt := 1,
            effects := [Sleep 0.249, GetWriteAvailable 2048, Write [1, 2, 3, 4]]\<rparr>)
   \<and> on_audio quiet_env 0.1 [1, 2, 3, 4] streaming_player =
     Inr (streaming_player\<lparr>stat_total_delay := 0, recent := 1, cnt := 1,
            effects := [GetWriteAvailable 2048, Write [1, 2, 3, 4]]\<rparr>)
   \<and> (\<exists>rest. added streaming_player
       (streaming_player\<lparr>stat_total_delay := 0.25, recent := 1, cnt := 1,
            effects := [Sleep 0.249, GetWriteAvailable 2048, Write [1, 2, 3, 4]]\<rparr>)
      = Sleep 0.249 # GetWriteAvailable 2048 # rest)
   \<and> (\<exists>rest. added streaming_player
       (streaming_player\<lparr>stat_total_delay := 0, recent := 1, cnt := 1,
            effects := [GetWriteAvailable 2048, Write [1, 2, 3, 4]]\<rparr>)
      = GetWriteAvailable 2048 # rest)"
proof -
  have open_dev: "stream streaming_player \<noteq> None"
    and tol: "0 \<le> tolerance streaming_player"
    by (simp_all add: streaming_player_def idle_player_def init_def)
  have d1: "chunk_delay quiet_env 0.35 streaming_player = 0.25"
    and d2: "chunk_delay quiet_env 0.1 streaming_player = 0"
    and md: "max_delay streaming_player = 0.4"
    by (simp_all add: chunk_delay_def streaming_player_def idle_player_def init_def quiet_env_def)
  have n1: "\<not> dropped quiet_env 0.35 [1, 2, 3, 4] streaming_player"
    unfolding dropped_def streaming_early_chunk
    by (simp add: streaming_player_def idle_player_def init_def)
  have n2: "\<not> dropped quiet_env 0.1 [1, 2, 3, 4] streaming_player"
    unfolding dropped_def streaming_due_chunk
    by (simp add: streaming_player_def idle_player_def init_def)
  have l1: "chunk_delay quiet_env 0.35 streaming_player \<le> max_delay streaming_player"
    and l2: "chunk_delay quiet_env 0.1 streaming_player \<le> max_delay streaming_player"
    unfolding d1 d2 md by simp_all
  show ?thesis
    using wait_before_write [OF open_dev tol l1 n1 streaming_early_chunk]
      wait_before_write [OF open_dev tol l2 n2 streaming_due_chunk]
      streaming_early_chunk streaming_due_chunk
    unfolding Let_def d1 d2
    by (simp add: one_msec_def quiet_env_def)
qed

section \<open>A stuck output device\<close>

text \<open>
  C4 (as amended). When the first 101 polls of the device all report fewer free
  frames than \<open>chunk_frames\<close>, the writer gives up after the 101st poll:
  \<open>stat_output_delays\<close> has grown by 101, one for each failed poll, each followed by a
  pause of \<open>max one_msec delay\<close>; then comes the message and a pause of one second;
  the chunk is not written. What remains of the iteration is the status block, and
  when fewer than 201 chunks are counted in the window the iteration ends normally.
\<close>

theorem stuck_output_abandons_chunk:
  assumes "chunk_frames st = Some cf" and "\<forall>k \<le> 100. real_of_int (avail e k) < cf"
  shows "\<exists>st1. write_loop (avail e) cf delay chunk 0 st = (avail e 100, st1)
           \<and> stat_output_delays st1 = stat_output_delays st + 101
           \<and> added st st1 = stuck_polls (avail e) delay 0 @ [Print OutputStuck, Sleep 1]
           \<and> length (filter (\<lambda>x. x = Sleep (max one_msec delay)) (stuck_polls (avail e) delay 0)) = 101
           \<and> Write chunk \<notin> set (added st st1)
           \<and> write_and_report e delay chunk st = main_status e (avail e 100) chunk (receive e st1)
           \<and> (recent st \<le> 200 \<longrightarrow> write_and_report e delay chunk st = Inr (receive e st1))"
proof -
  let ?st1 = "st\<lparr>stat_output_delays := stat_output_delays st + int (101 - 0),
              effects := effects st @ stuck_polls (avail e) delay 0 @ [Print OutputStuck, Sleep 1]\<rparr>"
  have w: "write_loop (avail e) cf delay chunk 0 st = (avail e 100, ?st1)"
    by (rule write_loop_stuck) (use assms in simp_all)
  have "write_and_report e delay chunk st = main_status e (avail e 100) chunk (receive e ?st1)"
    using assms(1) w by (simp add: write_and_report_def)
  moreover have "recent st \<le> 200 \<longrightarrow> main_status e (avail e 100) chunk (receive e ?st1) = Inr (receive e ?st1)"
    by (simp add: main_status_quiet receive_fields)
  ultimately show ?thesis
    using w by (simp add: added_def write_not_in_stuck_polls length_stuck_polls)
qed

theorem stuck_output_abandons_chunk_witness:
  "\<exists>st1. write_loop (\<lambda>k. 0) 1024 0 [1, 2, 3, 4] 0 streaming_player = (0, st1)
       \<and> stat_output_delays st1 = 101
       \<and> added streaming_player st1 = stuck_polls (\<lambda>k. 0) 0 0 @ [Print OutputStuck, Sleep 1]
       \<and> Write [1, 2, 3, 4] \<notin> set (added streaming_player st1)
       \<and> write_and_report stuck_env 0 [1, 2, 3, 4] streaming_player = Inr (receive stuck_env st1)"
  using stuck_output_abandons_chunk [of streaming_player 1024 stuck_env 0 "[1, 2, 3, 4]"]
  by (auto simp add: streaming_player_def idle_player_def init_def stuck_env_def)

text \<open>
  C4 as stated fails: after 101 failed polls the counter has grown by 101, not by 100.
\<close>

theorem stuck_output_delays_counterexample:
  "map_sum id stat_output_delays
     (step stuck_env
        (streaming_player\<lparr>chunk_queue :=
           \<lparr>chunk_list = [CMD_AUDIO 0.1 [1, 2, 3, 4]], recovery_requests = 0\<rparr>\<rparr>)) = Inr 101
   \<and> stat_output_delays streaming_player = 0"
proof -
  let ?s = "streaming_player\<lparr>chunk_queue :=
           \<lparr>chunk_list = [CMD_AUDIO 0.1 [1, 2, 3, 4]], recovery_requests = 0\<rparr>\<rparr>"
  let ?p = "pop_front [] ?s"
  let ?d = "chunk_delay stuck_env 0.1 ?p"
  let ?c = "count_chunk ?d ?p"
  have d: "?d = 0"
    by (simp add: chunk_delay_def pop_front_def streaming_player_def idle_player_def init_def
          stuck_env_def)
  have open_dev: "stream ?p \<noteq> None"
    and mt: "mid_tolerance ?p = 0.05" and md: "max_delay ?p = 0.4"
    and cf: "chunk_frames ?c = Some 1024" and rc: "recent ?c \<le> 200"
    and od: "stat_output_delays ?c = 0"
    by (simp_all add: pop_front_def streaming_player_def idle_player_def init_def
          mid_tolerance_def count_chunk_def)
  have in_time: "\<not> ?d < - mid_tolerance ?p" and not_late: "\<not> ?d > max_delay ?p"
    and soon: "\<not> ?d > one_msec"
    unfolding d mt md by (simp_all add: one_msec_def)
  have full: "\<forall>k \<le> 100. real_of_int (avail stuck_env k) < 1024"
    by (simp add: stuck_env_def)
  have "step stuck_env ?s = on_audio stuck_env 0.1 [1, 2, 3, 4] ?p"
    by (rule step_audio) simp
  also have "\<dots> = write_and_report stuck_env ?d [1, 2, 3, 4] ?c"
    using on_audio_plays [OF open_dev in_time not_late, of "[1, 2, 3, 4]"] soon by simp
  also have "\<dots> = Inr (receive stuck_env (?c\<lparr>stat_output_delays := stat_output_delays ?c + 101,
                  effects := effects ?c @ stuck_polls (avail stuck_env) ?d 0 @ [Print OutputStuck, Sleep 1]\<rparr>))"
    by (rule write_and_report_stuck [OF cf full rc])
  finally have "map_sum id stat_output_delays (step stuck_env ?s) = Inr (stat_output_delays ?c + 101)"
    by (simp add: receive_fields)
  then show ?thesis
    unfolding od by (simp add: streaming_player_def idle_player_def init_def)
qed

section \<open>The status line\<close>

subsection \<open>Which iterations reach the status block\<close>

lemma write_loop_no_stat:
  "\<exists>b k new. write_loop av cf delay chunk n st =
      (b, st\<lparr>stat_output_delays := stat_output_delays st + int k,
             effects := effects st @ new\<rparr>) \<and> filter is_stat new = []"
proof (induction av cf delay chunk n st rule: write_loop.induct)
  case (1 av cf delay chunk n st)
  show ?case
  proof (cases "real_of_int (av n) < cf")
    case False
    have "write_loop av cf delay chunk n st =
            (av n, st\<lparr>stat_output_delays := stat_output_delays st + int 0,
                       effects := effects st @ [GetWriteAvailable (av n), Write chunk]\<rparr>)
          \<and> filter is_stat [GetWriteAvailable (av n), Write chunk] = []"
      using False by (simp add: write_loop_free emit_def)
    then show ?thesis by blast
  next
    case full: True
    show ?thesis
    proof (cases "Suc n > 100")
      case True
      have "write_loop av cf delay chunk n st =
            (av n, st\<lparr>stat_output_delays := stat_output_delays st + int 1,
                       effects := effects st @ [GetWriteAvailable (av n),
                          Sleep (max one_msec delay), Print OutputStuck, Sleep 1]\<rparr>)
          \<and> filter is_stat [GetWriteAvailable (av n),
                          Sleep (max one_msec delay), Print OutputStuck, Sleep 1] = []"
        using full True by (subst write_loop.simps) (simp add: Let_def emit_def)
      then show ?thesis by blast
    next
      case False
      define st2 where "st2 = emit (Sleep (max one_msec delay))
            ((emit (GetWriteAvailable (av n)) st)
               \<lparr>stat_output_delays := stat_output_delays (emit (GetWriteAvailable (av n)) st) + 1\<rparr>)"
      from "1.IH" [OF refl refl full st2_def False]
      obtain b k new where r: "write_loop av cf delay chunk (Suc n) st2 =
          (b, st2\<lparr>stat_output_delays := stat_output_delays st2 + int k,
                  effects := effects st2 @ new\<rparr>)" and ns: "filter is_stat new = []"
        by blast
      have "write_loop av cf delay chunk n st = write_loop av cf delay chunk (Suc n) st2"
        using full False by (subst write_loop.simps) (simp add: Let_def st2_def)
      then have "write_loop av cf delay chunk n st =
          (b, st\<lparr>stat_output_delays := stat_output_delays st + int (Suc k),
                 effects := effects st @
                    (GetWriteAvailable (av n) # Sleep (max one_msec delay) # new)\<rparr>)
          \<and> filter is_stat (GetWriteAvailable (av n) # Sleep (max one_msec delay) # new) = []"
        using r ns by (simp add: st2_def emit_def)
      then show ?thesis by blast
    qed
  qed
qed

lemma reaches_writer_pop_front:
  "reaches_writer e mark (pop_front xs st) = reaches_writer e mark st"
  by (simp add: reaches_writer_def pop_front_delay pop_front_fields)

lemma on_audio_reaches_writer:
  assumes "reaches_writer e mark st"
  shows "\<exists>pre. on_audio e mark chunk st =
            write_and_report e (chunk_delay e mark st) chunk
              ((count_chunk (chunk_delay e mark st) st)
                 \<lparr>effects := effects st @ pre\<rparr>)
          \<and> filter is_stat pre = []"
proof -
  let ?d = "chunk_delay e mark st"
  let ?c = "count_chunk ?d st"
  have open_dev: "stream st \<noteq> None" using assms by (simp add: reaches_writer_def)
  have same: "?c\<lparr>effects := effects st @ []\<rparr> = ?c"
    by (simp add: count_chunk_def)
  show ?thesis
  proof (cases "?d < - mid_tolerance st")
    case True
    then have nz: "mid_tolerance st \<noteq> 0"
      and spared: "\<not> rand e < (- ?d - mid_tolerance st) / mid_tolerance st"
      using assms by (simp_all add: reaches_writer_def Let_def)
    have "on_audio e mark chunk st = write_and_report e ?d chunk (?c\<lparr>effects := effects st @ []\<rparr>)"
      using on_audio_late [OF open_dev True nz, of chunk] spared same by simp
    then show ?thesis by (intro exI [of _ "[]"]) simp
  next
    case False
    then have not_late: "\<not> ?d > max_delay st"
      using assms by (simp add: reaches_writer_def Let_def)
    show ?thesis
    proof (cases "?d > one_msec")
      case True
      have "emit (Sleep (max one_msec (?d - one_msec))) ?c =
              ?c\<lparr>effects := effects st @ [Sleep (max one_msec (?d - one_msec))]\<rparr>"
        by (simp add: emit_def count_chunk_def)
      then have "on_audio e mark chunk st = write_and_report e ?d chunk
              (?c\<lparr>effects := effects st @ [Sleep (max one_msec (?d - one_msec))]\<rparr>)"
        using on_audio_plays [OF open_dev False not_late, of chunk] True by simp
      then show ?thesis
        by (intro exI [of _ "[Sleep (max one_msec (?d - one_msec))]"]) simp
    next
      case soon: False
      have "on_audio e mark chunk st = write_and_report e ?d chunk (?c\<lparr>effects := effects st @ []\<rparr>)"
        using on_audio_plays [OF open_dev False not_late, of chunk] soon same by simp
      then show ?thesis by (intro exI [of _ "[]"]) simp
    qed
  qed
qed

lemma on_audio_misses_writer:
  assumes "\<not> reaches_writer e mark st" and "on_audio e mark chunk st = Inr st1"
  shows "filter is_stat (added st st1) = [] \<and> recent_start st1 = recent_start st
       \<and> recent st1 = (if stream st = None then recent st else recent st + 1)"
proof (cases "stream st = None")
  case True
  then show ?thesis using assms(2) by (simp add: on_audio_def added_def)
next
  case open_dev: False
  let ?d = "chunk_delay e mark st"
  let ?m = "mid_tolerance st"
  let ?c = "count_chunk ?d st"
  have rs: "recent_start ?c = recent_start st" by (simp add: count_chunk_def)
  show ?thesis
  proof (cases "?d < - ?m")
    case True
    then have nz: "?m \<noteq> 0"
      using assms(2) open_dev
      by (cases "stream st") (auto simp add: on_audio_def Let_def count_chunk_fields)
    then have "rand e < (- ?d - ?m) / ?m"
      using assms(1) open_dev True by (simp add: reaches_writer_def Let_def)
    then have "st1 = drop_chunk ?d ((- ?d - ?m) / ?m) ?c"
      using on_audio_late [OF open_dev True nz, of chunk] assms(2) by simp
    then show ?thesis
      using open_dev
      by (simp add: added_def drop_chunk_fields count_chunk_fields)
         (simp add: drop_chunk_def emit_def count_chunk_def)
  next
    case False
    then have late: "?d > max_delay st"
      using assms(1) open_dev by (simp add: reaches_writer_def Let_def)
    have "st1 = clear_state (emit (Print (HugeRecovery ?d (max_delay st))) ?c)"
      using on_audio_recovers [OF open_dev False late, of chunk] assms(2) by simp
    then show ?thesis
      using open_dev
      by (simp add: added_def clear_state_fields emit_fields count_chunk_fields)
         (simp add: clear_state_def Let_def emit_def count_chunk_def)
  qed
qed

lemma main_status_line:
  assumes "recent st > 200" and "frame_size st = Some fs" and "fs \<noteq> 0" and "chunk \<noteq> []"
    and "clock e \<noteq> recent_start st" and "cnt st \<noteq> 0"
  shows "\<exists>st1 s warn. main_status e b chunk st = Inr st1
           \<and> effects st1 = effects st @ Print (Stat s) # warn
           \<and> filter is_stat warn = []
           \<and> avg_delay s = 1000 * stat_total_delay st / real_of_int (cnt st)
           \<and> drops_time s = stat_time_drops st
           \<and> out_delay s = stat_output_delays st
           \<and> (receiver st = None \<longrightarrow> net_lat_ms s = 0 \<and> drops_net s = 0 \<and> warn = [])
           \<and> recent st1 = 0 \<and> recent_start st1 = clock_after e"
  using assms
  by (cases "receiver st") (simp_all add: main_status_def Let_def emit_def)

lemma write_and_report_status:
  assumes "chunk_frames st = Some cf" and "frame_size st = Some fs" and "fs \<noteq> 0"
    and "chunk \<noteq> []" and "clock e \<noteq> recent_start st" and "cnt st \<noteq> 0"
  shows "\<exists>st1 new. write_and_report e d chunk st = Inr st1 \<and> filter is_stat new = []
          \<and> (if recent st > 200
              then \<exists>s warn. effects st1 = effects st @ new @ Print (Stat s) # warn
                     \<and> filter is_stat warn = []
                     \<and> avg_delay s = 1000 * stat_total_delay st / real_of_int (cnt st)
                     \<and> drops_time s = stat_time_drops st
                     \<and> out_delay s = stat_output_delays st1
                     \<and> (receiver st = None \<longrightarrow> net_lat_ms s = 0 \<and> drops_net s = 0 \<and> warn = [])
                     \<and> recent st1 = 0 \<and> recent_start st1 = clock_after e
              else effects st1 = effects st @ new
                     \<and> recent st1 = recent st \<and> recent_start st1 = recent_start st)"
proof -
  obtain b k new where w: "write_loop (avail e) cf d chunk 0 st =
      (b, st\<lparr>stat_output_delays := stat_output_delays st + int k,
             effects := effects st @ new\<rparr>)" and ns: "filter is_stat new = []"
    using write_loop_no_stat by blast
  define st2 where "st2 = receive e (st\<lparr>stat_output_delays := stat_output_delays st + int k,
             effects := effects st @ new\<rparr>)"
  have wr: "write_and_report e d chunk st = main_status e b chunk st2"
    using assms(1) w by (simp add: write_and_report_def st2_def)
  have f2: "frame_size st2 = Some fs" "clock e \<noteq> recent_start st2" "cnt st2 \<noteq> 0"
    "recent st2 = recent st" "effects st2 = effects st @ new"
    "stat_total_delay st2 = stat_total_delay st" "cnt st2 = cnt st"
    "stat_time_drops st2 = stat_time_drops st" "receiver st2 = receiver st"
    "recent_start st2 = recent_start st"
    using assms by (simp_all add: st2_def receive_def)
  show ?thesis
  proof (cases "recent st > 200")
    case True
    then have "recent st2 > 200" by (simp add: f2)
    from main_status_line [OF this f2(1) assms(3,4) f2(2,3), of b]
    obtain st1 s warn where m: "main_status e b chunk st2 = Inr st1"
      "effects st1 = effects st2 @ Print (Stat s) # warn" "filter is_stat warn = []"
      "avg_delay s = 1000 * stat_total_delay st2 / real_of_int (cnt st2)"
      "drops_time s = stat_time_drops st2" "out_delay s = stat_output_delays st2"
      "receiver st2 = None \<longrightarrow> net_lat_ms s = 0 \<and> drops_net s = 0 \<and> warn = []"
      "recent st1 = 0" "recent_start st1 = clock_after e"
      by (elim exE conjE) (rule that)
    have "stat_output_delays st1 = stat_output_delays st2"
      using main_status_keeps(2) [OF m(1)] .
    then have "write_and_report e d chunk st = Inr st1 \<and> filter is_stat new = []
          \<and> (\<exists>s warn. effects st1 = effects st @ new @ Print (Stat s) # warn
                     \<and> filter is_stat warn = []
                     \<and> avg_delay s = 1000 * stat_total_delay st / real_of_int (cnt st)
                     \<and> drops_time s = stat_time_drops st
                     \<and> out_delay s = stat_output_delays st1
                     \<and> (receiver st = None \<longrightarrow> net_lat_ms s = 0 \<and> drops_net s = 0 \<and> warn = [])
                     \<and> recent st1 = 0 \<and> recent_start st1 = clock_after e)"
      using wr m ns f2 by auto
    then show ?thesis using True by auto
  next
    case False
    then have "main_status e b chunk st2 = Inr st2"
      by (simp add: main_status_quiet f2)
    then have "write_and_report e d chunk st = Inr st2 \<and> filter is_stat new = []
        \<and> effects st2 = effects st @ new \<and> recent st2 = recent st
        \<and> recent_start st2 = recent_start st"
      using wr ns f2 by simp
    then show ?thesis using False by auto
  qed
qed

text \<open>
  C5 (as amended). In an iteration on an audio chunk, a status line is emitted exactly
  when the chunk reaches the output writer (device open, not dropped, not taken for a
  recovery) and more than 200 chunks are counted in the window, the chunk at hand
  included (\<open>recent + 1 > 200\<close>), so at the 201st counted chunk at the earliest. The
  line comes after the writer's effects and only latency warnings follow it. It
  reports the average delay in milliseconds, \<open>1000 * stat_total_delay / cnt\<close> with the
  chunk at hand included in both, and 0 for network latency and drops when there is no
  receiver; right after it \<open>recent\<close> is 0 and \<open>recent_start\<close> is the clock. In every
  other audio iteration there is no status line and \<open>recent_start\<close> stays. The
  hypotheses are the state \<open>open_stream\<close> leaves (\<open>chunk_frames\<close> set, \<open>frame_size\<close>
  not zero), a payload that is not empty, a clock reading other than \<open>recent_start\<close>
  and a \<open>cnt\<close> that is not negative: without them the status block divides by zero.
\<close>

theorem status_after_200_chunks:
  assumes "chunk_list (chunk_queue st) = CMD_AUDIO mark chunk # xs"
    and "chunk_frames st = Some cf" and "frame_size st = Some fs" and "fs \<noteq> 0"
    and "chunk \<noteq> []" and "clock e \<noteq> recent_start st" and "0 \<le> cnt st"
  shows "(reaches_writer e mark st \<and> recent st + 1 > 200 \<longrightarrow>
           (\<exists>st1 pre s warn. step e st = Inr st1
              \<and> added st st1 = pre @ Print (Stat s) # warn
              \<and> filter is_stat pre = [] \<and> filter is_stat warn = []
              \<and> avg_delay s = 1000 * (stat_total_delay st + chunk_delay e mark st)
                               / real_of_int (cnt st + 1)
              \<and> drops_time s = stat_time_drops st
              \<and> out_delay s = stat_output_delays st1
              \<and> (receiver st = None \<longrightarrow> net_lat_ms s = 0 \<and> drops_net s = 0 \<and> warn = [])
              \<and> recent st1 = 0 \<and> recent_start st1 = clock_after e))
       \<and> (reaches_writer e mark st \<and> recent st + 1 \<le> 200 \<longrightarrow>
           (\<exists>st1. step e st = Inr st1
              \<and> filter is_stat (added st st1) = []
              \<and> recent st1 = recent st + 1 \<and> recent_start st1 = recent_start st))
       \<and> (\<not> reaches_writer e mark st \<longrightarrow>
           (\<forall>st1. step e st = Inr st1 \<longrightarrow>
              filter is_stat (added st st1) = []
              \<and> recent_start st1 = recent_start st
              \<and> recent st1 = (if stream st = None then recent st else recent st + 1)))"
proof -
  let ?p = "pop_front xs st"
  let ?d = "chunk_delay e mark st"
  have st: "step e st = on_audio e mark chunk ?p"
    by (rule step_audio [OF assms(1)])
  have pf: "effects ?p = effects st" "recent ?p = recent st" "recent_start ?p = recent_start st"
    "stream ?p = stream st" "chunk_delay e mark ?p = ?d"
    by (simp_all add: pop_front_def chunk_delay_def)
  have ad: "added st s = added ?p s" for s
    by (simp add: added_def pf)
  have miss: "\<forall>st1. step e st = Inr st1 \<longrightarrow>
              filter is_stat (added st st1) = []
              \<and> recent_start st1 = recent_start st
              \<and> recent st1 = (if stream st = None then recent st else recent st + 1)"
    if "\<not> reaches_writer e mark st"
  proof (intro allI impI)
    fix st1 assume "step e st = Inr st1"
    then have r: "on_audio e mark chunk ?p = Inr st1" using st by simp
    have "\<not> reaches_writer e mark ?p" using that by (simp add: reaches_writer_pop_front)
    from on_audio_misses_writer [OF this r]
    show "filter is_stat (added st st1) = []
              \<and> recent_start st1 = recent_start st
              \<and> recent st1 = (if stream st = None then recent st else recent st + 1)"
      by (simp add: ad pf)
  qed
  have hit: "\<exists>st1 pre new. step e st = Inr st1 \<and> filter is_stat pre = [] \<and> filter is_stat new = []
          \<and> (if recent st + 1 > 200
              then \<exists>s warn. added st st1 = (pre @ new) @ Print (Stat s) # warn
                     \<and> filter is_stat warn = []
                     \<and> avg_delay s = 1000 * (stat_total_delay st + ?d) / real_of_int (cnt st + 1)
                     \<and> drops_time s = stat_time_drops st
                     \<and> out_delay s = stat_output_delays st1
                     \<and> (receiver st = None \<longrightarrow> net_lat_ms s = 0 \<and> drops_net s = 0 \<and> warn = [])
                     \<and> recent st1 = 0 \<and> recent_start st1 = clock_after e
              else added st st1 = pre @ new
                     \<and> recent st1 = recent st + 1 \<and> recent_start st1 = recent_start st)"
    if "reaches_writer e mark st"
  proof -
    have "reaches_writer e mark ?p" using that by (simp add: reaches_writer_pop_front)
    from on_audio_reaches_writer [OF this, of chunk]
    obtain pre where oa: "on_audio e mark chunk ?p =
            write_and_report e ?d chunk ((count_chunk ?d ?p)\<lparr>effects := effects ?p @ pre\<rparr>)"
      and np: "filter is_stat pre = []"
      unfolding pf by blast
    define s0 where "s0 = (count_chunk ?d ?p)\<lparr>effects := effects ?p @ pre\<rparr>"
    have s0: "chunk_frames s0 = Some cf" "frame_size s0 = Some fs"
      "clock e \<noteq> recent_start s0" "cnt s0 \<noteq> 0"
      "recent s0 = recent st + 1" "cnt s0 = cnt st + 1"
      "stat_total_delay s0 = stat_total_delay st + ?d"
      "stat_time_drops s0 = stat_time_drops st" "receiver s0 = receiver st"
      "recent_start s0 = recent_start st" "effects s0 = effects st @ pre"
      using assms by (simp_all add: s0_def count_chunk_def pop_front_def)
    from write_and_report_status [OF s0(1,2) assms(4,5) s0(3,4), of ?d]
    obtain st1 new where wr: "write_and_report e ?d chunk s0 = Inr st1"
      and nn: "filter is_stat new = []"
      and body: "if recent s0 > 200
              then \<exists>s warn. effects st1 = effects s0 @ new @ Print (Stat s) # warn
                     \<and> filter is_stat warn = []
                     \<and> avg_delay s = 1000 * stat_total_delay s0 / real_of_int (cnt s0)
                     \<and> drops_time s = stat_time_drops s0
                     \<and> out_delay s = stat_output_delays st1
                     \<and> (receiver s0 = None \<longrightarrow> net_lat_ms s = 0 \<and> drops_net s = 0 \<and> warn = [])
                     \<and> recent st1 = 0 \<and> recent_start st1 = clock_after e
              else effects st1 = effects s0 @ new
                     \<and> recent st1 = recent s0 \<and> recent_start st1 = recent_start s0"
      by (elim exE conjE) (rule that)
    have r: "step e st = Inr st1" using st oa wr by (simp add: s0_def)
    have "if recent st + 1 > 200
              then \<exists>s warn. added st st1 = (pre @ new) @ Print (Stat s) # warn
                     \<and> filter is_stat warn = []
                     \<and> avg_delay s = 1000 * (stat_total_delay st + ?d) / real_of_int (cnt st + 1)
                     \<and> drops_time s = stat_time_drops st
                     \<and> out_delay s = stat_output_delays st1
                     \<and> (receiver st = None \<longrightarrow> net_lat_ms s = 0 \<and> drops_net s = 0 \<and> warn = [])
                     \<and> recent st1 = 0 \<and> recent_start st1 = clock_after e
              else added st st1 = pre @ new
                     \<and> recent st1 = recent st + 1 \<and> recent_start st1 = recent_start st"
      using body unfolding s0(5-11) added_def by (auto split: if_splits)
    then show ?thesis
      by (intro exI [of _ st1] exI [of _ pre] exI [of _ new]) (use r np nn in simp)
  qed
  have report: "\<exists>st1 pre s warn. step e st = Inr st1
              \<and> added st st1 = pre @ Print (Stat s) # warn
              \<and> filter is_stat pre = [] \<and> filter is_stat warn = []
              \<and> avg_delay s = 1000 * (stat_total_delay st + ?d) / real_of_int (cnt st + 1)
              \<and> drops_time s = stat_time_drops st
              \<and> out_delay s = stat_output_delays st1
              \<and> (receiver st = None \<longrightarrow> net_lat_ms s = 0 \<and> drops_net s = 0 \<and> warn = [])
              \<and> recent st1 = 0 \<and> recent_start st1 = clock_after e"
    if "reaches_writer e mark st" and "recent st + 1 > 200"
  proof -
    from hit [OF that(1)] that(2)
    obtain st1 pre new s warn where f: "step e st = Inr st1" "filter is_stat pre = []"
      "filter is_stat new = []" "added st st1 = (pre @ new) @ Print (Stat s) # warn"
      "filter is_stat warn = []"
      "avg_delay s = 1000 * (stat_total_delay st + ?d) / real_of_int (cnt st + 1)"
      "drops_time s = stat_time_drops st" "out_delay s = stat_output_delays st1"
      "receiver st = None \<longrightarrow> net_lat_ms s = 0 \<and> drops_net s = 0 \<and> warn = []"
      "recent st1 = 0" "recent_start st1 = clock_after e"
      by (auto split: if_splits)
    show ?thesis
      by (rule exI [of _ st1], rule exI [of _ "pre @ new"], rule exI [of _ s],
          rule exI [of _ warn])
         (use f in simp)
  qed
  have quiet: "\<exists>st1. step e st = Inr st1
              \<and> filter is_stat (added st st1) = []
              \<and> recent st1 = recent st + 1 \<and> recent_start st1 = recent_start st"
    if "reaches_writer e mark st" and "recent st + 1 \<le> 200"
  proof -
    from hit [OF that(1)] that(2)
    obtain st1 pre new where f: "step e st = Inr st1" "filter is_stat pre = []"
      "filter is_stat new = []" "added st st1 = pre @ new"
      "recent st1 = recent st + 1" "recent_start st1 = recent_start st"
      by (auto split: if_splits)
    show ?thesis
      by (rule exI [of _ st1]) (use f in simp)
  qed
  show ?thesis
  proof (intro conjI impI)
    assume "reaches_writer e mark st \<and> 200 < recent st + 1"
    then show "\<exists>st1 pre s warn. step e st = Inr st1
              \<and> added st st1 = pre @ Print (Stat s) # warn
              \<and> filter is_stat pre = [] \<and> filter is_stat warn = []
              \<and> avg_delay s = 1000 * (stat_total_delay st + ?d) / real_of_int (cnt st + 1)
              \<and> drops_time s = stat_time_drops st
              \<and> out_delay s = stat_output_delays st1
              \<and> (receiver st = None \<longrightarrow> net_lat_ms s = 0 \<and> drops_net s = 0 \<and> warn = [])
              \<and> recent st1 = 0 \<and> recent_start st1 = clock_after e"
      using report by simp
  next
    assume "reaches_writer e mark st \<and> recent st + 1 \<le> 200"
    then show "\<exists>st1. step e st = Inr st1
              \<and> filter is_stat (added st st1) = []
              \<and> recent st1 = recent st + 1 \<and> recent_start st1 = recent_start st"
      using quiet by simp
  next
    assume "\<not> reaches_writer e mark st"
    then show "\<forall>st1. step e st = Inr st1 \<longrightarrow>
              filter is_stat (added st st1) = []
              \<and> recent_start st1 = recent_start st
              \<and> recent st1 = (if stream st = None then recent st else recent st + 1)"
      using miss by simp
  qed
qed

lemma window_player_late:
  "step quiet_env (window_player 250 (- 0.1)) =
     Inr ((window_player 250 (- 0.1))
            \<lparr>chunk_queue := \<lparr>chunk_list = [], recovery_requests = 0\<rparr>,
             stat_time_drops := 1, stat_total_delay := 2.8, cnt := 251, recent := 251,
             effects := [Print (DropChunk 0 (- 200) (- 100) 3)]\<rparr>)"
  by (simp add: step_def pop_front_def on_audio_def drop_chunk_def Let_def window_player_def
        streaming_player_def idle_player_def init_def quiet_env_def chunk_delay_def
        mid_tolerance_def count_chunk_def emit_def)

theorem status_after_200_chunks_witness:
  "reaches_writer quiet_env 0.1 (window_player 200 0.1)
   \<and> (\<exists>st1 pre s warn. step quiet_env (window_player 200 0.1) = Inr st1
         \<and> added (window_player 200 0.1) st1 = pre @ Print (Stat s) # warn
         \<and> filter is_stat pre = []
         \<and> avg_delay s = 3000 / 201
         \<and> net_lat_ms s = 0 \<and> drops_net s = 0 \<and> warn = []
         \<and> recent st1 = 0 \<and> recent_start st1 = 1)
   \<and> (\<exists>st1. step quiet_env (window_player 199 0.1) = Inr st1
         \<and> filter is_stat (added (window_player 199 0.1) st1) = []
         \<and> recent st1 = 200 \<and> recent_start st1 = 0)
   \<and> \<not> reaches_writer quiet_env (- 0.1) (window_player 250 (- 0.1))
   \<and> (\<exists>st1. step quiet_env (window_player 250 (- 0.1)) = Inr st1
         \<and> filter is_stat (added (window_player 250 (- 0.1)) st1) = []
         \<and> recent st1 = 251 \<and> recent_start st1 = 0)"
proof -
  have r1: "reaches_writer quiet_env 0.1 (window_player 200 0.1)"
    and r2: "reaches_writer quiet_env 0.1 (window_player 199 0.1)"
    and r3: "\<not> reaches_writer quiet_env (- 0.1) (window_player 250 (- 0.1))"
    by (simp_all add: reaches_writer_def Let_def window_player_def streaming_player_def
          idle_player_def init_def quiet_env_def chunk_delay_def mid_tolerance_def)
  have h: "chunk_list (chunk_queue (window_player n m)) = CMD_AUDIO m [1, 2, 3, 4] # []"
    "chunk_frames (window_player n m) = Some 1024" "frame_size (window_player n m) = Some 4"
    "clock quiet_env \<noteq> recent_start (window_player n m)"
    "cnt (window_player n m) = n" "recent (window_player n m) = n"
    "recent_start (window_player n m) = 0" "receiver (window_player n m) = None"
    "stat_total_delay (window_player n m) = 3" "stream (window_player n m) \<noteq> None"
    for n m
    by (simp_all add: window_player_def streaming_player_def idle_player_def init_def
          quiet_env_def)
  have d: "chunk_delay quiet_env 0.1 (window_player 200 0.1) = 0"
    by (simp add: chunk_delay_def window_player_def streaming_player_def idle_player_def
          init_def quiet_env_def)
  have c: "clock_after quiet_env = 1" by (simp add: quiet_env_def)
  have a: "(4::int) \<noteq> 0" "[1, 2, 3, 4 :: byte] \<noteq> []" by simp_all
  have n1: "0 \<le> cnt (window_player 200 0.1)" and n2: "0 \<le> cnt (window_player 199 0.1)"
    and n3: "0 \<le> cnt (window_player 250 (- 0.1))"
    by (simp_all add: h)
  note t1 = status_after_200_chunks [OF h(1) h(2) h(3) a(1) a(2) h(4) n1]
  note t2 = status_after_200_chunks [OF h(1) h(2) h(3) a(1) a(2) h(4) n2]
  note t3 = status_after_200_chunks [OF h(1) h(2) h(3) a(1) a(2) h(4) n3]
  have p1: "\<exists>st1 pre s warn. step quiet_env (window_player 200 0.1) = Inr st1
         \<and> added (window_player 200 0.1) st1 = pre @ Print (Stat s) # warn
         \<and> filter is_stat pre = []
         \<and> avg_delay s = 3000 / 201
         \<and> net_lat_ms s = 0 \<and> drops_net s = 0 \<and> warn = []
         \<and> recent st1 = 0 \<and> recent_start st1 = 1"
    using t1 r1 unfolding h d c by auto
  have p2: "\<exists>st1. step quiet_env (window_player 199 0.1) = Inr st1
         \<and> filter is_stat (added (window_player 199 0.1) st1) = []
         \<and> recent st1 = 200 \<and> recent_start st1 = 0"
    using t2 r2 unfolding h by auto
  have p3: "\<exists>st1. step quiet_env (window_player 250 (- 0.1)) = Inr st1
         \<and> filter is_stat (added (window_player 250 (- 0.1)) st1) = []
         \<and> recent st1 = 251 \<and> recent_start st1 = 0"
    using t3 r3 window_player_late unfolding h by auto
  show ?thesis using r1 p1 p2 r3 p3 by simp
qed

text \<open>
  C5 as stated fails: the 200th chunk of a window is written without a status line,
  and the window is not reset.
\<close>

theorem status_at_200th_chunk_counterexample:
  "map_sum id recent
     (step quiet_env
        (streaming_player\<lparr>recent := 199, cnt := 199,
           chunk_queue := \<lparr>chunk_list = [CMD_AUDIO 0.1 [1, 2, 3, 4]], recovery_requests = 0\<rparr>\<rparr>))
     = Inr 200
   \<and> map_sum id effects
     (step quiet_env
        (streaming_player\<lparr>recent := 199, cnt := 199,
           chunk_queue := \<lparr>chunk_list = [CMD_AUDIO 0.1 [1, 2, 3, 4]], recovery_requests = 0\<rparr>\<rparr>))
     = Inr [GetWriteAvailable 2048, Write [1, 2, 3, 4]]"
  by (simp add: step_def pop_front_def on_audio_def write_and_report_def write_loop.simps
        main_status_def receive_def Let_def streaming_player_def idle_player_def init_def
        quiet_env_def chunk_delay_def mid_tolerance_def count_chunk_def emit_def one_msec_def)

section \<open>Cumulative counters\<close>

text \<open>
  C10. Over any number of iterations, with any readings of the clocks, the random
  source and the device and any arrivals, \<open>stat_time_drops\<close>, \<open>stat_output_delays\<close>
  and \<open>cnt\<close> never decrease.
\<close>

theorem cumulative_counters_monotone:
  assumes "run es st = Inr st1"
  shows "stat_time_drops st \<le> stat_time_drops st1
       \<and> stat_output_delays st \<le> stat_output_delays st1
       \<and> cnt st \<le> cnt st1"
  using assms
proof (induction es arbitrary: st)
  case Nil
  then show ?case by simp
next
  case (Cons e es)
  then obtain st2 where s: "step e st = Inr st2" and r: "run es st2 = Inr st1"
    by (auto split: sum.splits)
  from step_monotone [OF s] Cons.IH [OF r] show ?case by simp
qed

lemma sample_run: "run [quiet_env, quiet_env, quiet_env, quiet_env] sample_start = Inr sample_end"
  by (simp add: step_def pop_front_def on_audio_def on_drops_def on_empty_def clear_state_def
        do_recovery_def drop_chunk_def write_and_report_def write_loop.simps
        main_status_def receive_def Let_def streaming_player_def idle_player_def init_def
        quiet_env_def chunk_delay_def mid_tolerance_def count_chunk_def emit_def one_msec_def
        scenario_a_def sample_start_def sample_end_def)

theorem cumulative_counters_monotone_witness:
  "run [quiet_env, quiet_env, quiet_env, quiet_env] sample_start = Inr sample_end
   \<and> stat_time_drops sample_start = 0 \<and> stat_time_drops sample_end = 1
   \<and> stat_output_delays sample_start = 0 \<and> stat_output_delays sample_end = 0
   \<and> cnt sample_start = 0 \<and> cnt sample_end = 2
   \<and> recent sample_start = 7 \<and> recent sample_end = 0
   \<and> stat_time_drops sample_start \<le> stat_time_drops sample_end
   \<and> stat_output_delays sample_start \<le> stat_output_delays sample_end
   \<and> cnt sample_start \<le> cnt sample_end"
  using cumulative_counters_monotone [OF sample_run] sample_run
  by (simp add: sample_start_def sample_end_def streaming_player_def idle_player_def init_def)

end
